theory Spec2Isabelle
  imports Main "HOL-Library.Word"
begin

section \<open>JavaScript values and the platform primitives the worker relies on\<close>

text \<open>
  The worker (worker.js) runs on Node.js. Bytes are 8-bit words, a JavaScript string is
  its sequence of UTF-16 code units, and a WebAssembly i64 is a 64-bit word that reaches
  JavaScript as a BigInt holding its signed value (\<open>sint\<close>).
\<close>

type_synonym byte = "8 word"
type_synonym bytes = "byte list"
type_synonym jsstring = "16 word list"
type_synonym i64 = "64 word"

text \<open>
  Thrown values: the constructor is the error class. An \<open>Error\<close> made by the source
  carries its message; the errors of the platform carry their code or a short description.
\<close>

datatype js_error =
    Error jsstring
  | TypeError string
  | RangeError string
  | RuntimeError string
  | LinkError string

datatype 'a completion = Normal 'a | Throw js_error

text \<open>
  The values a property of \<open>ctx\<close> can hold. \<open>Object\<close> stands for the two
  object-valued properties (the logs array and the memory), which the model keeps as
  record fields and never converts.
\<close>

datatype jsval = Undefined | Num int | Str jsstring | Bytes bytes | Object

definition js :: "string \<Rightarrow> jsstring" where
  "js s = map (\<lambda>c. of_nat (of_char c)) s"

definition ascii :: "string \<Rightarrow> bytes" where
  "ascii s = map (\<lambda>c. of_nat (of_char c)) s"

subsection \<open>Number(bigint)\<close>

text \<open>
  \<open>Number(x)\<close> of a BigInt is the double nearest to \<open>x\<close>, ties to even. Below
  \<open>2^53\<close> every integer is a double; above, the value keeps 53 significant bits. The
  result is an integer in the whole i64 range, so it is modelled as an \<open>int\<close>.
\<close>

fun bit_length :: "nat \<Rightarrow> nat" where
  "bit_length n = (if n = 0 then 0 else Suc (bit_length (n div 2)))"

declare bit_length.simps [simp del]

definition round_to_double :: "nat \<Rightarrow> nat" where
  "round_to_double n =
     (if n < 2 ^ 53 then n
      else let e = bit_length n - 53;
               q = n div 2 ^ e;
               r = n mod 2 ^ e;
               half = 2 ^ (e - 1)
           in (if half < r \<or> (r = half \<and> odd q) then q + 1 else q) * 2 ^ e)"

definition Number :: "int \<Rightarrow> int" where
  "Number x = (if x < 0 then - int (round_to_double (nat (- x))) else int (round_to_double (nat x)))"

text \<open>A BigInt returned to WebAssembly as an i64 wraps modulo \<open>2^64\<close> (ToBigInt64).\<close>

definition to_i64 :: "int \<Rightarrow> i64" where
  "to_i64 x = word_of_int x"

definition MAX_U64 :: int where
  "MAX_U64 = 18446744073709551615"

subsection \<open>Typed arrays over the memory buffer\<close>

text \<open>
  \<open>new Uint8Array(buffer, byteOffset, length)\<close>: both numbers go through ToIndex
  (RangeError outside \<open>0 .. 2^53 - 1\<close>), and the view must lie inside the buffer.
\<close>

definition Uint8Array_view :: "bytes \<Rightarrow> int \<Rightarrow> int \<Rightarrow> bytes completion" where
  "Uint8Array_view buffer byteOffset len =
     (if byteOffset < 0 \<or> 2 ^ 53 - 1 < byteOffset then Throw (RangeError ''offset'')
      else if len < 0 \<or> 2 ^ 53 - 1 < len then Throw (RangeError ''length'')
      else if int (length buffer) < byteOffset + len then Throw (RangeError ''bounds'')
      else Normal (take (nat len) (drop (nat byteOffset) buffer)))"

text \<open>
  \<open>mem.slice(start, end)\<close> never throws: a negative index counts from the end, and
  both indices are clamped to the array.
\<close>

definition Uint8Array_slice :: "bytes \<Rightarrow> int \<Rightarrow> int \<Rightarrow> bytes" where
  "Uint8Array_slice mem start fin =
     (let len = int (length mem);
          k = (if start < 0 then max (len + start) 0 else min start len);
          final = (if fin < 0 then max (len + fin) 0 else min fin len);
          count = max (final - k) 0
      in take (nat count) (drop (nat k) mem))"

text \<open>
  \<open>mem.set(source, offset)\<close>: RangeError when the offset is negative or the source
  does not fit behind it, also for an empty source.
\<close>

definition typed_array_set :: "bytes \<Rightarrow> bytes \<Rightarrow> int \<Rightarrow> bytes completion" where
  "typed_array_set target source offset =
     (if offset < 0 then Throw (RangeError ''offset is out of bounds'')
      else if int (length target) < int (length source) + offset
        then Throw (RangeError ''offset is out of bounds'')
      else Normal (take (nat offset) target @ source @ drop (nat offset + length source) target))"

subsection \<open>Buffer\<close>

text \<open>\<open>Buffer.from(string)\<close> encodes the string as UTF-8; a lone surrogate becomes U+FFFD.\<close>

definition is_high_surrogate :: "nat \<Rightarrow> bool" where
  "is_high_surrogate c = (0xD800 \<le> c \<and> c \<le> 0xDBFF)"

definition is_low_surrogate :: "nat \<Rightarrow> bool" where
  "is_low_surrogate c = (0xDC00 \<le> c \<and> c \<le> 0xDFFF)"

definition utf8_of_code_point :: "nat \<Rightarrow> bytes" where
  "utf8_of_code_point cp =
     (if cp < 0x80 then [of_nat cp]
      else if cp < 0x800 then [of_nat (0xC0 + cp div 64), of_nat (0x80 + cp mod 64)]
      else if cp < 0x10000 then
        [of_nat (0xE0 + cp div 4096), of_nat (0x80 + cp div 64 mod 64), of_nat (0x80 + cp mod 64)]
      else
        [of_nat (0xF0 + cp div 262144), of_nat (0x80 + cp div 4096 mod 64),
         of_nat (0x80 + cp div 64 mod 64), of_nat (0x80 + cp mod 64)])"

definition utf8_of_code_unit :: "nat \<Rightarrow> bytes" where
  "utf8_of_code_unit c =
     (if is_high_surrogate c \<or> is_low_surrogate c then [0xEF, 0xBF, 0xBD]
      else utf8_of_code_point c)"

fun utf8_encode :: "jsstring \<Rightarrow> bytes" where
  "utf8_encode [] = []"
| "utf8_encode [c] = utf8_of_code_unit (unat c)"
| "utf8_encode (c # d # s) =
     (if is_high_surrogate (unat c) \<and> is_low_surrogate (unat d)
      then utf8_of_code_point (0x10000 + (unat c - 0xD800) * 1024 + (unat d - 0xDC00))
             @ utf8_encode s
      else utf8_of_code_unit (unat c) @ utf8_encode (d # s))"

text \<open>
  \<open>Buffer.from(value)\<close>: a string is encoded, a byte array is copied, \<open>undefined\<close>
  and numbers are refused with ERR_INVALID_ARG_TYPE. No call of the worker passes an
  object, so that case has no equation.
\<close>

fun Buffer_from :: "jsval \<Rightarrow> bytes completion" where
  "Buffer_from (Str s) = Normal (utf8_encode s)"
| "Buffer_from (Bytes b) = Normal b"
| "Buffer_from Undefined = Throw (TypeError ''ERR_INVALID_ARG_TYPE'')"
| "Buffer_from (Num n) = Throw (TypeError ''ERR_INVALID_ARG_TYPE'')"

text \<open>
  \<open>buf.toString(encoding)\<close>: an empty buffer gives the empty string before the
  encoding is looked at; otherwise the name is looked up among Node's encodings
  (ERR_UNKNOWN_ENCODING when it is none of them) and the bytes are decoded. The decoders
  themselves belong to the platform and are a parameter of the model.
\<close>

datatype encoding = UTF8 | UCS2 | UTF16LE | LATIN1 | ASCII | BASE64 | BASE64URL | HEX

type_synonym decoder = "encoding \<Rightarrow> bytes \<Rightarrow> jsstring"

definition getEncodingOps :: "string \<Rightarrow> encoding option" where
  "getEncodingOps name =
     map_of [(''utf8'', UTF8), (''utf-8'', UTF8), (''ucs2'', UCS2), (''ucs-2'', UCS2),
             (''utf16le'', UTF16LE), (''utf-16le'', UTF16LE), (''latin1'', LATIN1),
             (''binary'', LATIN1), (''base64'', BASE64), (''base64url'', BASE64URL),
             (''hex'', HEX), (''ascii'', ASCII)] name"

definition Buffer_toString :: "decoder \<Rightarrow> bytes \<Rightarrow> string \<Rightarrow> jsstring completion" where
  "Buffer_toString decode buf enc =
     (if buf = [] then Normal []
      else case getEncodingOps enc of
             None \<Rightarrow> Throw (TypeError ''ERR_UNKNOWN_ENCODING'')
           | Some ops \<Rightarrow> Normal (decode ops buf))"

section \<open>The execution context and the import table (worker.js)\<close>

text \<open>
  \<open>runWASM\<close> builds \<open>ctx\<close> with the properties \<open>blockHeight\<close>,
  \<open>contractId\<close>, \<open>methodArgs\<close> and \<open>logs\<close>, sets \<open>memory\<close> after
  instantiation, and \<open>value_return\<close> sets \<open>result\<close>. \<open>memory\<close> holds the
  bytes of \<open>ctx.memory.buffer\<close>.
\<close>

record ctx =
  blockHeight :: nat
  contractId :: jsstring
  methodArgs :: bytes
  logs :: "jsstring list"
  memory :: bytes
  result :: "bytes option"

text \<open>
  Reading a property of \<open>ctx\<close> by its name: a name that \<open>ctx\<close> does not have gives
  \<open>undefined\<close>, as does \<open>result\<close> before \<open>value_return\<close>.
\<close>

definition ctx_get :: "'a ctx_scheme \<Rightarrow> string \<Rightarrow> jsval" where
  "ctx_get c name =
     (if name = ''blockHeight'' then Num (int (blockHeight c))
      else if name = ''contractId'' then Str (contractId c)
      else if name = ''methodArgs'' then Bytes (methodArgs c)
      else if name = ''logs'' then Object
      else if name = ''memory'' then Object
      else if name = ''result'' then (case result c of None \<Rightarrow> Undefined | Some b \<Rightarrow> Bytes b)
      else Undefined)"

text \<open>String conversion inside a template literal, for the values the worker interpolates.\<close>

fun ToString :: "jsval \<Rightarrow> jsstring" where
  "ToString (Str s) = s"
| "ToString Undefined = js ''undefined''"

text \<open>
  What a worker posts to its parent, and what it finds on its port: one poll of
  \<open>receiveMessageOnPort\<close> gives nothing (\<open>None\<close>) or a message, and the message of a
  storage reply is the value's bytes or \<open>null\<close> (\<open>None\<close>).
\<close>

datatype worker_msg =
    StorageReadRequest bytes
  | Completed "bytes option" "jsstring list"
  | Failed js_error

type_synonym reply = "bytes option"

text \<open>
  The state of one call: \<open>ctx\<close>, the register table of the \<open>imports\<close> closure, and
  the two directions of the parent port.
\<close>

record wstate = ctx +
  registers :: "i64 \<rightharpoonup> bytes"
  outbox :: "worker_msg list"
  inbox :: "reply option list"

type_synonym ret = "i64 option"

subsection \<open>Registers\<close>

definition register_len :: "i64 \<Rightarrow> wstate \<Rightarrow> ret completion \<times> wstate" where
  "register_len register_id st =
     (Normal (Some (to_i64 (case registers st register_id of
                              Some r \<Rightarrow> int (length r)
                            | None \<Rightarrow> MAX_U64))), st)"

definition read_register :: "i64 \<Rightarrow> i64 \<Rightarrow> wstate \<Rightarrow> ret completion \<times> wstate" where
  "read_register register_id ptr st =
     (case typed_array_set (memory st)
             (case registers st register_id of Some r \<Rightarrow> r | None \<Rightarrow> [])
             (Number (sint ptr)) of
        Throw e \<Rightarrow> (Throw e, st)
      | Normal mem \<Rightarrow> (Normal None, st\<lparr>memory := mem\<rparr>))"

definition current_account_id :: "i64 \<Rightarrow> wstate \<Rightarrow> ret completion \<times> wstate" where
  "current_account_id register_id st =
     (case Buffer_from (ctx_get st ''contract_id'') of
        Throw e \<Rightarrow> (Throw e, st)
      | Normal b \<Rightarrow> (Normal None, st\<lparr>registers := (registers st)(register_id \<mapsto> b)\<rparr>))"

definition input :: "i64 \<Rightarrow> wstate \<Rightarrow> ret completion \<times> wstate" where
  "input register_id st =
     (case Buffer_from (ctx_get st ''methodArgs'') of
        Throw e \<Rightarrow> (Throw e, st)
      | Normal b \<Rightarrow> (Normal None, st\<lparr>registers := (registers st)(register_id \<mapsto> b)\<rparr>))"

definition block_index :: "wstate \<Rightarrow> ret completion \<times> wstate" where
  "block_index st = (Normal (Some (to_i64 (int (blockHeight st)))), st)"

subsection \<open>Result, panic and logs\<close>

definition value_return :: "i64 \<Rightarrow> i64 \<Rightarrow> wstate \<Rightarrow> ret completion \<times> wstate" where
  "value_return value_len value_ptr st =
     (Normal None,
      st\<lparr>result := Some (Uint8Array_slice (memory st) (Number (sint value_ptr))
                                 (Number (sint value_ptr + sint value_len)))\<rparr>)"

definition panic :: "wstate \<Rightarrow> ret completion \<times> wstate" where
  "panic st = (Throw (Error (js ''panic: explicit guest panic'')), st)"

text \<open>
  \<open>log_utf8\<close> and \<open>log_utf16\<close> have one body, up to the name of the encoding they
  pass to \<open>toString\<close>; \<open>log_with\<close> is that body.
\<close>

definition log_with :: "decoder \<Rightarrow> string \<Rightarrow> i64 \<Rightarrow> i64 \<Rightarrow> wstate \<Rightarrow> ret completion \<times> wstate" where
  "log_with decode enc len ptr st =
     (case Uint8Array_view (memory st) (Number (sint ptr)) (Number (sint len)) of
        Throw e \<Rightarrow> (Throw e, st)
      | Normal view \<Rightarrow>
          (case Buffer_toString decode view enc of
             Throw e \<Rightarrow> (Throw e, st)
           | Normal message \<Rightarrow> (Normal None, st\<lparr>logs := logs st @ [message]\<rparr>)))"

definition log_utf8 :: "decoder \<Rightarrow> i64 \<Rightarrow> i64 \<Rightarrow> wstate \<Rightarrow> ret completion \<times> wstate" where
  "log_utf8 decode len ptr st = log_with decode ''utf8'' len ptr st"

definition log_utf16 :: "decoder \<Rightarrow> i64 \<Rightarrow> i64 \<Rightarrow> wstate \<Rightarrow> ret completion \<times> wstate" where
  "log_utf16 decode len ptr st = log_with decode ''utf16'' len ptr st"

subsection \<open>Functions that only throw\<close>

type_synonym variadic = "i64 list \<Rightarrow> wstate \<Rightarrow> ret completion \<times> wstate"

definition notImplemented :: "string \<Rightarrow> variadic" where
  "notImplemented name args st =
     (Throw (Error (js ''method not implemented: '' @ js name)), st)"

definition prohibitedInView :: "string \<Rightarrow> variadic" where
  "prohibitedInView name args st =
     (Throw (Error (js ''method not available for view calls: '' @ js name)), st)"

subsection \<open>storage_read and the storage bridge, worker side\<close>

text \<open>
  The busy-wait \<open>do resultMessage = receiveMessageOnPort(parentPort) while (!resultMessage)\<close>
  consumes polls up to the first message. When no message ever comes the loop does not
  return: \<open>None\<close>.
\<close>

fun receive_loop :: "reply option list \<Rightarrow> (reply \<times> reply option list) option" where
  "receive_loop [] = None"
| "receive_loop (None # polls) = receive_loop polls"
| "receive_loop (Some m # polls) = Some (m, polls)"

definition storage_read_compKey :: "'a ctx_scheme \<Rightarrow> i64 \<Rightarrow> i64 \<Rightarrow> bytes completion" where
  "storage_read_compKey c key_len key_ptr =
     (case Uint8Array_view (memory c) (Number (sint key_ptr)) (Number (sint key_len)) of
        Throw e \<Rightarrow> Throw e
      | Normal storageKey \<Rightarrow>
          (case Buffer_from (Str (ToString (ctx_get c ''contractId'') @ js '':'')) of
             Throw e \<Rightarrow> Throw e
           | Normal prefix \<Rightarrow> Normal (concat [prefix, storageKey])))"

definition storage_read ::
  "i64 \<Rightarrow> i64 \<Rightarrow> i64 \<Rightarrow> wstate \<Rightarrow> (ret completion \<times> wstate) option" where
  "storage_read key_len key_ptr register_id st =
     (case storage_read_compKey st key_len key_ptr of
        Throw e \<Rightarrow> Some (Throw e, st)
      | Normal compKey \<Rightarrow>
          (let st1 = st\<lparr>outbox := outbox st @ [StorageReadRequest compKey]\<rparr> in
           case receive_loop (inbox st1) of
             None \<Rightarrow> None
           | Some (res, polls) \<Rightarrow>
               (let st2 = st1\<lparr>inbox := polls\<rparr> in
                case res of
                  None \<Rightarrow> Some (Normal (Some (to_i64 0)), st2)
                | Some data \<Rightarrow>
                    Some (Normal (Some (to_i64 1)),
                          st2\<lparr>registers := (registers st2)(register_id \<mapsto> data)\<rparr>))))"

subsection \<open>The import table\<close>

text \<open>
  The entries of \<open>env\<close> built by \<open>prohibitedInView\<close> and \<open>notImplemented\<close>, in the
  order of the source.
\<close>

definition named_imports :: "(string \<times> variadic) list" where
  "named_imports =
     [(''signer_account_id'', prohibitedInView ''signer_account_id''),
      (''signer_account_pk'', prohibitedInView ''signer_account_pk''),
      (''predecessor_account_id'', prohibitedInView ''predecessor_account_id''),
      (''block_timestamp'', notImplemented ''block_timestamp''),
      (''epoch_height'', notImplemented ''epoch_height''),
      (''storage_usage'', notImplemented ''storage_usage''),
      (''account_balance'', notImplemented ''account_balance''),
      (''account_locked_balance'', notImplemented ''account_locked_balance''),
      (''attached_deposit'', prohibitedInView ''attached_deposit''),
      (''prepaid_gas'', prohibitedInView ''prepaid_gas''),
      (''used_gas'', prohibitedInView ''used_gas''),
      (''random_seed'', notImplemented ''random_seed''),
      (''sha256'', notImplemented ''sha256''),
      (''keccak256'', notImplemented ''keccak256''),
      (''keccak512'', notImplemented ''keccak512''),
      (''promise_create'', prohibitedInView ''promise_create''),
      (''promise_then'', prohibitedInView ''promise_then''),
      (''promise_and'', prohibitedInView ''promise_and''),
      (''promise_batch_create'', prohibitedInView ''promise_batch_create''),
      (''promise_batch_then'', prohibitedInView ''promise_batch_then''),
      (''promise_batch_action_create_account'',
         prohibitedInView ''promise_batch_action_create_account''),
      (''promise_batch_action_deploy_contract'',
         prohibitedInView ''promise_batch_action_deploy_contract''),
      (''promise_batch_action_function_call'',
         prohibitedInView ''promise_batch_action_function_call''),
      (''promise_batch_action_transfer'', prohibitedInView ''promise_batch_action_transfer''),
      (''promise_batch_action_stake'', prohibitedInView ''promise_batch_action_stake''),
      (''promise_batch_action_add_key_with_full_access'',
         prohibitedInView ''promise_batch_action_add_key_with_full_access''),
      (''promise_batch_action_add_key_with_function_call'',
         prohibitedInView ''promise_batch_action_add_key_with_function_call''),
      (''promise_batch_action_delete_key'',
         prohibitedInView ''promise_batch_action_delete_key''),
      (''promise_batch_action_delete_account'',
         prohibitedInView ''promise_batch_action_delete_account''),
      (''promise_results_count'', prohibitedInView ''promise_results_count''),
      (''promise_result'', prohibitedInView ''promise_result''),
      (''promise_return'', prohibitedInView ''promise_return''),
      (''storage_write'', prohibitedInView ''storage_write''),
      (''storage_remove'', prohibitedInView ''storage_remove''),
      (''storage_has_key'', notImplemented ''storage_has_key''),
      (''validator_stake'', notImplemented ''validator_stake''),
      (''validator_total_stake'', notImplemented ''validator_total_stake'')]"

text \<open>
  One call of an import by the guest. The implemented functions carry their i64
  parameters; \<open>Named\<close> calls an entry of \<open>named_imports\<close> with any arguments.
  (\<open>panic_utf8\<close> and \<open>abort\<close> are not modelled.)
\<close>

datatype import_call =
    Register_len i64
  | Read_register i64 i64
  | Current_account_id i64
  | Input i64
  | Block_index
  | Value_return i64 i64
  | Panic
  | Log_utf8 i64 i64
  | Log_utf16 i64 i64
  | Storage_read i64 i64 i64
  | Named string "i64 list"

fun env :: "decoder \<Rightarrow> import_call \<Rightarrow> wstate \<Rightarrow> (ret completion \<times> wstate) option" where
  "env decode (Register_len register_id) st = Some (register_len register_id st)"
| "env decode (Read_register register_id ptr) st = Some (read_register register_id ptr st)"
| "env decode (Current_account_id register_id) st = Some (current_account_id register_id st)"
| "env decode (Input register_id) st = Some (input register_id st)"
| "env decode Block_index st = Some (block_index st)"
| "env decode (Value_return value_len value_ptr) st = Some (value_return value_len value_ptr st)"
| "env decode Panic st = Some (panic st)"
| "env decode (Log_utf8 len ptr) st = Some (log_utf8 decode len ptr st)"
| "env decode (Log_utf16 len ptr) st = Some (log_utf16 decode len ptr st)"
| "env decode (Storage_read key_len key_ptr register_id) st =
     storage_read key_len key_ptr register_id st"
| "env decode (Named name args) st =
     (case map_of named_imports name of
        Some f \<Rightarrow> Some (f args st)
      | None \<Rightarrow> Some (Throw (LinkError name), st))"

section \<open>Running one call (runWASM and the worker's message handler)\<close>

text \<open>
  What the guest does during one call of an exported method, in order: calls of imports,
  stores to its own linear memory, and possibly a trap. A store outside the memory traps.
\<close>

datatype guest_op = Call import_call | Store nat bytes | Unreachable

fun run_guest :: "decoder \<Rightarrow> guest_op list \<Rightarrow> wstate \<Rightarrow> (unit completion \<times> wstate) option" where
  "run_guest decode [] st = Some (Normal (), st)"
| "run_guest decode (Call c # ops) st =
     (case env decode c st of
        None \<Rightarrow> None
      | Some (Throw e, st') \<Rightarrow> Some (Throw e, st')
      | Some (Normal r, st') \<Rightarrow> run_guest decode ops st')"
| "run_guest decode (Store addr bs # ops) st =
     (if length (memory st) < addr + length bs
      then Some (Throw (RuntimeError ''memory access out of bounds''), st)
      else run_guest decode ops
             (st\<lparr>memory := take addr (memory st) @ bs @ drop (addr + length bs) (memory st)\<rparr>))"
| "run_guest decode (Unreachable # ops) st = Some (Throw (RuntimeError ''unreachable''), st)"

text \<open>
  The compiled module: the initial contents of its exported memory and, for each exported
  method, what it does. The task message carries the module and the call.
\<close>

record wasm_module =
  module_imports :: "string list"
  initial_memory :: bytes
  exports :: "string \<rightharpoonup> guest_op list"

record task_message =
  wasmModule :: wasm_module
  task_blockHeight :: nat
  task_contractId :: jsstring
  task_methodName :: string
  task_methodArgs :: bytes

text \<open>
  The names \<open>env\<close> provides: the functions written out in the source and the entries of
  \<open>named_imports\<close>. \<open>WebAssembly.instantiate\<close> links every import the module
  declares, whichever method is called afterwards.
\<close>

definition env_provides :: "string \<Rightarrow> bool" where
  "env_provides name =
     (name \<in> set [''register_len'', ''read_register'', ''current_account_id'', ''input'',
                   ''block_index'', ''value_return'', ''panic'', ''panic_utf8'', ''abort'',
                   ''log_utf8'', ''log_utf16'', ''storage_read'']
      \<or> map_of named_imports name \<noteq> None)"

definition links :: "wasm_module \<Rightarrow> bool" where
  "links m = list_all env_provides (module_imports m)"

text \<open>
  The state \<open>runWASM\<close> starts the method in: the fresh \<open>ctx\<close>, the empty register
  table of \<open>imports(ctx)\<close>, and the memory of the instance.
\<close>

definition initial_state :: "task_message \<Rightarrow> reply option list \<Rightarrow> wstate" where
  "initial_state msg polls =
     \<lparr>blockHeight = task_blockHeight msg, contractId = task_contractId msg,
      methodArgs = task_methodArgs msg, logs = [],
      memory = initial_memory (wasmModule msg), result = None,
      registers = Map.empty, outbox = [], inbox = polls\<rparr>"

text \<open>
  Instantiation comes first and fails with a LinkError when the module imports a name
  that \<open>env\<close> lacks, for every method; then a method that is not exported is not a
  function.
\<close>

definition runWASM ::
  "decoder \<Rightarrow> task_message \<Rightarrow> reply option list \<Rightarrow> (unit completion \<times> wstate) option" where
  "runWASM decode msg polls =
     (let st = initial_state msg polls
      in if \<not> links (wasmModule msg) then Some (Throw (LinkError ''import''), st)
         else case exports (wasmModule msg) (task_methodName msg) of
                None \<Rightarrow> Some (Throw (TypeError ''not a function''), st)
              | Some body \<Rightarrow> run_guest decode body st)"

text \<open>
  The worker's \<open>message\<close> handler: everything the worker posts during the call, ending
  with \<open>{ result, logs }\<close> or \<open>{ error }\<close>; \<open>None\<close> when the call never returns.
\<close>

definition worker_on_message ::
  "decoder \<Rightarrow> task_message \<Rightarrow> reply option list \<Rightarrow> worker_msg list option" where
  "worker_on_message decode msg polls =
     (case runWASM decode msg polls of
        None \<Rightarrow> None
      | Some (Normal u, st) \<Rightarrow> Some (outbox st @ [Completed (result st) (logs st)])
      | Some (Throw e, st) \<Rightarrow> Some (outbox st @ [Failed e]))"

section \<open>The worker pool (worker-pool.js)\<close>

subsection \<open>The timeout setting\<close>

text \<open>
  \<open>parseInt(string)\<close> with no radix: leading white space is skipped, then an optional
  sign, then \<open>0x\<close> or \<open>0X\<close> selects radix 16, and the longest run of digits is read;
  with no digit the result is \<open>NaN\<close> (\<open>None\<close>). The model gives the integer read,
  before it is rounded to a double.
\<close>

definition is_white_space :: "16 word \<Rightarrow> bool" where
  "is_white_space c =
     (c \<in> set [0x09, 0x0A, 0x0B, 0x0C, 0x0D, 0x20, 0xA0, 0x1680, 0x2028, 0x2029, 0x202F,
               0x205F, 0x3000, 0xFEFF]
      \<or> (0x2000 \<le> unat c \<and> unat c \<le> 0x200A))"

definition digit_value :: "nat \<Rightarrow> 16 word \<Rightarrow> nat option" where
  "digit_value radix c =
     (let u = unat c;
          v = (if 48 \<le> u \<and> u \<le> 57 then u - 48
               else if 97 \<le> u \<and> u \<le> 122 then u - 87
               else if 65 \<le> u \<and> u \<le> 90 then u - 55
               else radix)
      in if v < radix then Some v else None)"

fun digits_prefix :: "nat \<Rightarrow> jsstring \<Rightarrow> nat list" where
  "digits_prefix radix [] = []"
| "digits_prefix radix (c # cs) =
     (case digit_value radix c of
        None \<Rightarrow> []
      | Some d \<Rightarrow> d # digits_prefix radix cs)"

definition parseInt :: "jsstring \<Rightarrow> int option" where
  "parseInt s =
     (let s1 = dropWhile is_white_space s;
          negative = (case s1 of c # cs \<Rightarrow> c = 0x2D | [] \<Rightarrow> False);
          s2 = (case s1 of c # cs \<Rightarrow> if c = 0x2B \<or> c = 0x2D then cs else s1 | [] \<Rightarrow> s1);
          hex = (case s2 of a # b # cs \<Rightarrow> a = 0x30 \<and> (b = 0x78 \<or> b = 0x58) | _ \<Rightarrow> False);
          radix = (if hex then 16 else 10);
          digits = digits_prefix radix (if hex then drop 2 s2 else s2)
      in if digits = [] then None
         else Some ((if negative then - 1 else 1)
                    * int (foldl (\<lambda>a d. a * radix + d) 0 digits)))"

text \<open>
  \<open>CONTRACT_TIMEOUT_MS\<close>, from the value of the environment variable
  \<open>FAST_NEAR_CONTRACT_TIMEOUT_MS\<close> (unset, or empty, gives \<open>'1000'\<close>), and the delay
  \<open>setTimeout\<close> makes of it: anything that is not between 1 and \<open>2^31 - 1\<close> becomes 1.
\<close>

definition CONTRACT_TIMEOUT_MS :: "jsstring option \<Rightarrow> int option" where
  "CONTRACT_TIMEOUT_MS env_value =
     parseInt (case env_value of
                 None \<Rightarrow> js ''1000''
               | Some v \<Rightarrow> if v = [] then js ''1000'' else v)"

definition setTimeout_delay :: "int option \<Rightarrow> int" where
  "setTimeout_delay after =
     (case after of
        Some d \<Rightarrow> if 1 \<le> d \<and> d \<le> 2147483647 then d else 1
      | None \<Rightarrow> 1)"

text \<open>
  The storage client, owned by the pool: the latest data block hash of a key at or before
  a height, and the value of a key at a block hash.
\<close>

type_synonym block_hash = bytes

record storage_client =
  getLatestDataBlockHash :: "bytes \<Rightarrow> nat \<Rightarrow> block_hash option"
  getData :: "bytes \<Rightarrow> block_hash \<Rightarrow> bytes option"

text \<open>
  A promise is pending until its first \<open>resolve\<close> or \<open>reject\<close>; later ones change
  nothing.
\<close>

datatype settlement = Pending | Resolved "bytes option" "jsstring list" | Rejected js_error

text \<open>
  \<open>worker[kTaskInfo]\<close>: the promise whose \<open>resolve\<close> and \<open>reject\<close> the task holds,
  the call's data, the timer and the timed-out flag.
\<close>

record task_info =
  promise :: nat
  ti_blockHeight :: nat
  ti_contractId :: jsstring
  ti_methodName :: string
  timeoutHandle :: "nat option"
  didTimeout :: bool

text \<open>
  A worker: its task, whether \<open>terminate()\<close> has been called on it, and whether its
  thread has exited.
\<close>

record worker =
  kTaskInfo :: "task_info option"
  terminated :: bool
  exited :: bool

datatype to_worker = Task task_message | StorageReply reply

text \<open>
  The pool and the objects it owns. Workers, promises and timers are numbered as they
  are created. \<open>freed_listeners\<close> holds the callers queued by
  \<open>once(kWorkerFreedEvent, ...)\<close>, each with the promise it settles; \<open>timers\<close> holds the
  armed timers and the worker of their callback, \<open>delays\<close> the delay each timer was set
  with; \<open>timeout_env\<close> is the value of \<open>FAST_NEAR_CONTRACT_TIMEOUT_MS\<close> that the module
  read when it was loaded; \<open>posted\<close> is what the pool has sent to
  its workers; \<open>error_listener\<close> says whether the owner listens for the pool's error event.
\<close>

record pool =
  numThreads :: nat
  workers :: "nat list"
  freeWorkers :: "nat list"
  storageClient :: storage_client
  worker_obj :: "nat \<Rightarrow> worker"
  next_worker :: nat
  freed_listeners :: "(nat \<times> task_message) list"
  promises :: "nat \<Rightarrow> settlement"
  next_promise :: nat
  timers :: "nat \<rightharpoonup> nat"
  delays :: "nat \<rightharpoonup> int"
  timeout_env :: "jsstring option"
  next_timer :: nat
  posted :: "(nat \<times> to_worker) list"
  error_listener :: bool
  emitted_errors :: "js_error list"

definition settle :: "nat \<Rightarrow> settlement \<Rightarrow> pool \<Rightarrow> pool" where
  "settle p s pl =
     (if promises pl p = Pending then pl\<lparr>promises := (promises pl)(p := s)\<rparr> else pl)"

definition set_task :: "nat \<Rightarrow> task_info option \<Rightarrow> pool \<Rightarrow> pool" where
  "set_task w ti pl = pl\<lparr>worker_obj := (worker_obj pl)(w := (worker_obj pl w)\<lparr>kTaskInfo := ti\<rparr>)\<rparr>"

definition terminate :: "nat \<Rightarrow> pool \<Rightarrow> pool" where
  "terminate w pl = pl\<lparr>worker_obj := (worker_obj pl)(w := (worker_obj pl w)\<lparr>terminated := True\<rparr>)\<rparr>"

subsection \<open>runContract\<close>

text \<open>
  The body of the promise of \<open>runContract\<close>, for the promise \<open>p\<close>. With no free worker
  the call is queued; the queued callback runs \<open>runContract\<close> again and passes the
  outcome on to \<open>p\<close>, which the model writes as running the body again for \<open>p\<close>.
\<close>

definition runContract_body :: "nat \<Rightarrow> task_message \<Rightarrow> pool \<Rightarrow> pool" where
  "runContract_body p call pl =
     (if freeWorkers pl = [] then pl\<lparr>freed_listeners := freed_listeners pl @ [(p, call)]\<rparr>
      else
        let w = last (freeWorkers pl);
            t = next_timer pl;
            pl1 = pl\<lparr>freeWorkers := butlast (freeWorkers pl)\<rparr>;
            pl2 = set_task w (Some \<lparr>promise = p, ti_blockHeight = task_blockHeight call,
                                    ti_contractId = task_contractId call,
                                    ti_methodName = task_methodName call,
                                    timeoutHandle = Some t, didTimeout = False\<rparr>) pl1
        in pl2\<lparr>posted := posted pl2 @ [(w, Task call)],
                timers := (timers pl2)(t \<mapsto> w),
                delays := (delays pl2)(t \<mapsto> setTimeout_delay (CONTRACT_TIMEOUT_MS (timeout_env pl2))),
                next_timer := Suc t\<rparr>)"

definition runContract :: "task_message \<Rightarrow> pool \<Rightarrow> nat \<times> pool" where
  "runContract call pl =
     (let p = next_promise pl
      in (p, runContract_body p call (pl\<lparr>next_promise := Suc p\<rparr>)))"

text \<open>
  \<open>emit(kWorkerFreedEvent)\<close> calls the callbacks queued so far, each once and in order;
  a callback that finds no free worker queues itself again.
\<close>

definition emit_kWorkerFreedEvent :: "pool \<Rightarrow> pool" where
  "emit_kWorkerFreedEvent pl =
     fold (\<lambda>(p, call). runContract_body p call) (freed_listeners pl)
          (pl\<lparr>freed_listeners := []\<rparr>)"

subsection \<open>addNewWorker and its handlers\<close>

definition addNewWorker :: "pool \<Rightarrow> pool" where
  "addNewWorker pl =
     (let w = next_worker pl
      in emit_kWorkerFreedEvent
           (pl\<lparr>next_worker := Suc w,
               worker_obj := (worker_obj pl)(w := \<lparr>kTaskInfo = None, terminated = False, exited = False\<rparr>),
               workers := workers pl @ [w],
               freeWorkers := freeWorkers pl @ [w]\<rparr>))"

text \<open>
  The reply to a \<open>storage_read\<close> request: the value at the latest data block at or
  before the task's height, or \<open>null\<close>.
\<close>

definition storage_lookup :: "storage_client \<Rightarrow> bytes \<Rightarrow> nat \<Rightarrow> reply" where
  "storage_lookup client compKey height =
     (case getLatestDataBlockHash client compKey height of
        Some blockHash \<Rightarrow> getData client compKey blockHash
      | None \<Rightarrow> None)"

text \<open>
  The \<open>message\<close> handler of a worker. A handler that throws ends in \<open>Inl\<close>: an
  uncaught exception of the orchestrating thread.
\<close>

definition on_message :: "nat \<Rightarrow> worker_msg \<Rightarrow> pool \<Rightarrow> js_error + pool" where
  "on_message w msg pl =
     (case kTaskInfo (worker_obj pl w) of
        None \<Rightarrow> Inl (TypeError ''Cannot destructure property of null'')
      | Some ti \<Rightarrow>
          (case msg of
             StorageReadRequest compKey \<Rightarrow>
               Inr (pl\<lparr>posted := posted pl @
                      [(w, StorageReply (storage_lookup (storageClient pl) compKey
                                           (ti_blockHeight ti)))]\<rparr>)
           | Failed error \<Rightarrow>
               (let pl1 = pl\<lparr>timers := (case timeoutHandle ti of
                                           Some t \<Rightarrow> (timers pl)(t := None)
                                         | None \<Rightarrow> timers pl)\<rparr>;
                    pl2 = set_task w None pl1;
                    pl3 = emit_kWorkerFreedEvent (pl2\<lparr>freeWorkers := freeWorkers pl2 @ [w]\<rparr>)
                in Inr (settle (promise ti) (Rejected error) pl3))
           | Completed res lgs \<Rightarrow>
               (let pl1 = pl\<lparr>timers := (case timeoutHandle ti of
                                           Some t \<Rightarrow> (timers pl)(t := None)
                                         | None \<Rightarrow> timers pl)\<rparr>;
                    pl2 = set_task w None pl1;
                    pl3 = emit_kWorkerFreedEvent (pl2\<lparr>freeWorkers := freeWorkers pl2 @ [w]\<rparr>)
                in case res of
                     Some r \<Rightarrow> Inr (settle (promise ti) (Resolved (Some r) lgs) pl3)
                   | None \<Rightarrow> Inr pl3)))"

text \<open>
  \<open>workers.splice(workers.indexOf(worker), 1)\<close>: the first occurrence goes; when the
  worker is not in the list, \<open>indexOf\<close> is \<open>-1\<close> and the last element goes.
\<close>

definition splice_indexOf :: "nat list \<Rightarrow> nat \<Rightarrow> nat list" where
  "splice_indexOf ws w = (if w \<in> set ws then remove1 w ws else butlast ws)"

definition on_error :: "nat \<Rightarrow> js_error \<Rightarrow> pool \<Rightarrow> js_error + pool" where
  "on_error w err pl =
     (case (case kTaskInfo (worker_obj pl w) of
              Some ti \<Rightarrow>
                Inr (settle (promise ti)
                       (Rejected (if didTimeout ti
                                  then Error (ti_contractId ti @ js ''.'' @ js (ti_methodName ti)
                                              @ js '' execution timed out'')
                                  else err)) pl)
            | None \<Rightarrow>
                if error_listener pl then Inr (pl\<lparr>emitted_errors := emitted_errors pl @ [err]\<rparr>)
                else Inl err) of
        Inl e \<Rightarrow> Inl e
      | Inr pl1 \<Rightarrow> Inr (addNewWorker (pl1\<lparr>workers := splice_indexOf (workers pl1) w\<rparr>)))"

text \<open>The \<open>exit\<close> handler, for the exit code as the template literal prints it.\<close>

definition on_exit :: "nat \<Rightarrow> string \<Rightarrow> pool \<Rightarrow> js_error + pool" where
  "on_exit w code pl = on_error w (Error (js ''Worker stopped with exit code '' @ js code)) pl"

text \<open>
  The \<open>exit\<close> event of a worker's thread. A thread exits once, and the handler is
  registered with \<open>once\<close>: for a thread that has exited already nothing runs, also
  when \<open>terminate()\<close> is called on it again.
\<close>

definition thread_exit :: "nat \<Rightarrow> string \<Rightarrow> pool \<Rightarrow> js_error + pool" where
  "thread_exit w code pl =
     (if exited (worker_obj pl w) then Inr pl
      else on_exit w code
             (pl\<lparr>worker_obj := (worker_obj pl)(w := (worker_obj pl w)\<lparr>exited := True\<rparr>)\<rparr>))"

text \<open>The timer of \<open>runContract\<close> fires: its callback runs for the worker it was armed for.\<close>

definition on_timeout :: "nat \<Rightarrow> pool \<Rightarrow> pool" where
  "on_timeout t pl =
     (case timers pl t of
        None \<Rightarrow> pl
      | Some w \<Rightarrow>
          (let pl1 = pl\<lparr>timers := (timers pl)(t := None)\<rparr>
           in case kTaskInfo (worker_obj pl1 w) of
                Some ti \<Rightarrow> terminate w (set_task w (Some (ti\<lparr>didTimeout := True\<rparr>)) pl1)
              | None \<Rightarrow> pl1))"

subsection \<open>Construction and close\<close>

definition WorkerPool :: "nat \<Rightarrow> storage_client \<Rightarrow> jsstring option \<Rightarrow> pool" where
  "WorkerPool n client env_value =
     (addNewWorker ^^ n)
       \<lparr>numThreads = n, workers = [], freeWorkers = [], storageClient = client,
        worker_obj = (\<lambda>w. \<lparr>kTaskInfo = None, terminated = False, exited = False\<rparr>), next_worker = 0,
        freed_listeners = [], promises = (\<lambda>p. Pending), next_promise = 0,
        timers = Map.empty, delays = Map.empty, timeout_env = env_value, next_timer = 0,
        posted = [], error_listener = False, emitted_errors = []\<rparr>"

definition close :: "pool \<Rightarrow> pool" where
  "close pl = fold terminate (workers pl) pl"

text \<open>Whether an operation of the guest is a call of \<open>value_return\<close>.\<close>

fun is_value_return :: "guest_op \<Rightarrow> bool" where
  "is_value_return (Call (Value_return value_len value_ptr)) = True"
| "is_value_return op = False"

section \<open>Example inputs\<close>

text \<open>
  A stand-in for the platform's decoders, used on concrete inputs: each byte becomes one
  code unit, which is what UTF-8 decoding gives on ASCII bytes.
\<close>

definition bytewise_decoder :: decoder where
  "bytewise_decoder enc bs = map (\<lambda>b. of_nat (unat b)) bs"

text \<open>
  A module whose memory starts with the bytes of \<open>khello\<close>. \<open>get\<close> reads the key
  \<open>k\<close> into register 0, logs \<open>hello\<close> and returns it; \<open>quiet\<close> only logs;
  \<open>write\<close> logs and then calls \<open>storage_write\<close>; \<open>spin\<close> reads a key for which
  no reply comes.
\<close>

definition example_module :: wasm_module where
  "example_module =
     \<lparr>module_imports = [''storage_read'', ''log_utf8'', ''value_return'', ''storage_write''],
      initial_memory = ascii ''khello'',
      exports = [''get'' \<mapsto> [Call (Storage_read 1 0 0), Call (Log_utf8 5 1),
                              Call (Value_return 1 0), Call (Value_return 5 1)],
                 ''quiet'' \<mapsto> [Call (Log_utf8 5 1)],
                 ''write'' \<mapsto> [Call (Log_utf8 5 1), Call (Named ''storage_write'' [1, 0, 1, 1, 0])],
                 ''spin'' \<mapsto> [Call (Storage_read 1 0 0)]]\<rparr>"

definition example_task :: "string \<Rightarrow> task_message" where
  "example_task method =
     \<lparr>wasmModule = example_module, task_blockHeight = 7,
      task_contractId = js ''alice.test'', task_methodName = method,
      task_methodArgs = ascii ''{}''\<rparr>"

text \<open>A storage client that knows one key, written at height 5.\<close>

definition example_client :: storage_client where
  "example_client =
     \<lparr>getLatestDataBlockHash =
        (\<lambda>key height. if key = ascii ''alice.test:k'' \<and> 5 \<le> height then Some [5] else None),
      getData = (\<lambda>key hash. if key = ascii ''alice.test:k'' \<and> hash = [5]
                              then Some (ascii ''value'') else None)\<rparr>"

text \<open>
  A pool of one worker whose owner listens for the pool's error event, after the thread of
  its worker has exited while the worker was idle; and the same pool after two calls of
  \<open>spin\<close> have been submitted to it.
\<close>

definition idle_exit_pool :: pool where
  "idle_exit_pool =
     (case thread_exit 0 ''1'' ((WorkerPool 1 example_client None)\<lparr>error_listener := True\<rparr>) of
        Inl e \<Rightarrow> WorkerPool 1 example_client None
      | Inr pl \<Rightarrow> pl)"

definition stale_pool :: pool where
  "stale_pool =
     snd (runContract (example_task ''spin'')
            (snd (runContract (example_task ''spin'') idle_exit_pool)))"

text \<open>
  The state of a call of the example module after \<open>input(0)\<close>: register 0 holds the
  arguments \<open>{}\<close>, every other register is unset, and the port will deliver \<open>polls\<close>.
\<close>

definition example_state :: "reply option list \<Rightarrow> wstate" where
  "example_state polls = snd (input 0 (initial_state (example_task ''get'') polls))"

text \<open>
  The names that the interface forbids in a view call: signer and predecessor identity,
  attached deposit, the gas queries, every promise function, \<open>storage_write\<close> and
  \<open>storage_remove\<close>.
\<close>

definition prohibited_for_view :: "string list" where
  "prohibited_for_view =
     [''signer_account_id'', ''signer_account_pk'', ''predecessor_account_id'',
      ''attached_deposit'', ''prepaid_gas'', ''used_gas'',
      ''promise_create'', ''promise_then'', ''promise_and'', ''promise_batch_create'',
      ''promise_batch_then'', ''promise_batch_action_create_account'',
      ''promise_batch_action_deploy_contract'', ''promise_batch_action_function_call'',
      ''promise_batch_action_transfer'', ''promise_batch_action_stake'',
      ''promise_batch_action_add_key_with_full_access'',
      ''promise_batch_action_add_key_with_function_call'',
      ''promise_batch_action_delete_key'', ''promise_batch_action_delete_account'',
      ''promise_results_count'', ''promise_result'', ''promise_return'',
      ''storage_write'', ''storage_remove'']"

text \<open>A pool of one worker that has been given the call of \<open>method\<close>.\<close>

definition example_pool :: "string \<Rightarrow> pool" where
  "example_pool method = snd (runContract (example_task method) (WorkerPool 1 example_client None))"

section \<open>Facts about the platform primitives\<close>

lemma bit_length_bounds:
  "0 < n \<Longrightarrow> 2 ^ (bit_length n - 1) \<le> n \<and> n < 2 ^ bit_length n"
proof (induction n rule: bit_length.induct)
  case (1 n)
  show ?case
  proof (cases "n div 2 = 0")
    case True
    with "1.prems" have "n = 1" by presburger
    then show ?thesis by (simp add: bit_length.simps[of "Suc 0"] bit_length.simps[of 0])
  next
    case False
    then have pos: "0 < n div 2" by simp
    from "1.IH"[OF _ pos] "1.prems"
    have ih: "2 ^ (bit_length (n div 2) - 1) \<le> n div 2" "n div 2 < 2 ^ bit_length (n div 2)"
      by auto
    have bl: "bit_length n = Suc (bit_length (n div 2))"
      using "1.prems" by (subst bit_length.simps) simp
    have blpos: "0 < bit_length (n div 2)"
      using pos by (subst bit_length.simps) simp
    then obtain k where k: "bit_length (n div 2) = Suc k" by (cases "bit_length (n div 2)") auto
    show ?thesis using ih bl k by auto
  qed
qed

lemma round_to_double_exact: "n < 2 ^ 53 \<Longrightarrow> round_to_double n = n"
  by (simp add: round_to_double_def)

lemma round_to_double_large:
  assumes "2 ^ 53 \<le> n"
  shows "2 ^ 53 \<le> round_to_double n"
proof -
  define e where "e = bit_length n - 53"
  define q where "q = n div 2 ^ e"
  have npos: "0 < n" using assms by (simp add: order.strict_trans2[OF _ assms])
  from bit_length_bounds[OF npos] have lo: "2 ^ (bit_length n - 1) \<le> n" and hi: "n < 2 ^ bit_length n"
    by auto
  have "(2::nat) ^ 53 < 2 ^ bit_length n" using assms hi by linarith
  then have bl: "53 < bit_length n" by (rule power_less_imp_less_exp[rotated]) simp
  then have e_eq: "bit_length n - 1 = 52 + e" by (simp add: e_def)
  have "2 ^ 52 * 2 ^ e \<le> n" using lo e_eq by (simp add: power_add)
  then have "2 ^ 52 \<le> q" unfolding q_def
    by (simp add: less_eq_div_iff_mult_less_eq)
  then have "2 ^ 52 * 2 ^ e \<le> q * 2 ^ e" by simp
  moreover have "(2::nat) ^ 53 \<le> 2 ^ 52 * 2 ^ e"
  proof -
    have "0 < e" using bl by (simp add: e_def)
    then have "(2::nat) ^ 1 \<le> 2 ^ e" by (intro power_increasing) auto
    then show ?thesis by simp
  qed
  ultimately have base: "2 ^ 53 \<le> q * 2 ^ e" by linarith
  have "q * 2 ^ e \<le> round_to_double n"
    using assms by (simp add: round_to_double_def Let_def e_def[symmetric] q_def[symmetric])
  with base show ?thesis by linarith
qed

text \<open>The rounding on known values: ties go to the even significand.\<close>

lemma bit_length_numeral:
  "bit_length (numeral k) = Suc (bit_length (numeral k div 2))"
  by (subst bit_length.simps) simp

lemma bit_length_0: "bit_length 0 = 0"
  by (simp add: bit_length.simps)

lemma bit_length_1: "bit_length (Suc 0) = Suc 0"
  by (simp add: bit_length.simps[of "Suc 0"] bit_length_0)

lemma Number_rounds:
  "Number (2 ^ 53 + 1) = 2 ^ 53"
  "Number (2 ^ 53 + 3) = 2 ^ 53 + 4"
  "Number (2 ^ 63 - 1) = 2 ^ 63"
  "Number (- (2 ^ 63)) = - (2 ^ 63)"
  "Number (- 2) = - 2"
  by (simp_all add: Number_def round_to_double_def bit_length_numeral bit_length_0 bit_length_1 Let_def)

lemma parseInt_examples:
  "parseInt (js ''1000'') = Some 1000"
  "parseInt (js '' 250ms'') = Some 250"
  "parseInt (js ''0x10'') = Some 16"
  "parseInt (js ''-5'') = Some (- 5)"
  "parseInt (js ''abc'') = None"
  by (simp_all add: parseInt_def js_def is_white_space_def digit_value_def)

lemma Number_exact: "\<bar>x\<bar> < 2 ^ 53 \<Longrightarrow> Number x = x"
  by (auto simp: Number_def round_to_double_exact nat_less_iff)


lemma Uint8Array_view_in_bounds:
  assumes "0 \<le> p" "0 \<le> l" "p + l \<le> int (length mem)" "length mem \<le> 2 ^ 32"
  shows "Uint8Array_view mem (Number p) (Number l) = Normal (take (nat l) (drop (nat p) mem))"
proof -
  have L: "int (length mem) \<le> 2 ^ 32"
    using assms(4) by (metis of_nat_le_iff of_nat_numeral of_nat_power)
  have "\<bar>p\<bar> < 2 ^ 53" "\<bar>l\<bar> < 2 ^ 53" using assms(1-3) L by auto
  then have "Number p = p" "Number l = l" by (simp_all add: Number_exact)
  then show ?thesis using assms(1-3) L by (simp add: Uint8Array_view_def)
qed

lemma utf8_encode_colon: "utf8_encode (s @ [0x3A]) = utf8_encode s @ [0x3A]"
proof (induction s rule: utf8_encode.induct)
  case 1
  show ?case by (simp add: utf8_of_code_unit_def utf8_of_code_point_def is_high_surrogate_def is_low_surrogate_def)
next
  case (2 c)
  show ?case by (simp add: utf8_of_code_unit_def utf8_of_code_point_def is_high_surrogate_def is_low_surrogate_def)
next
  case (3 c d s)
  then show ?case by simp
qed

lemma js_colon: "js '':'' = [0x3A]"
  by (simp add: js_def)

lemma compKey_general:
  assumes "0 \<le> sint key_ptr" "0 \<le> sint key_len"
    "sint key_ptr + sint key_len \<le> int (length (memory c))" "length (memory c) \<le> 2 ^ 32"
  shows "storage_read_compKey c key_len key_ptr =
         Normal (utf8_encode (contractId c) @ [0x3A]
                 @ take (nat (sint key_len)) (drop (nat (sint key_ptr)) (memory c)))"
  using assms
  by (simp add: storage_read_compKey_def Uint8Array_view_in_bounds ctx_get_def js_colon utf8_encode_colon)


lemma mem_bound_int: "length (m::bytes) \<le> 2 ^ 32 \<Longrightarrow> int (length m) \<le> 2 ^ 32"
  by (metis of_nat_le_iff of_nat_numeral of_nat_power)

lemma ctx_get_contract_id: "ctx_get c ''contract_id'' = Undefined"
  by (simp add: ctx_get_def)

lemma input_stores_args:
  "input register_id st =
     (Normal None, st\<lparr>registers := (registers st)(register_id \<mapsto> methodArgs st)\<rparr>)"
  by (simp add: input_def ctx_get_def)

lemma initial_state_simps:
  "memory (initial_state msg polls) = initial_memory (wasmModule msg)"
  "registers (initial_state msg polls) = Map.empty"
  "logs (initial_state msg polls) = []"
  "result (initial_state msg polls) = None"
  "contractId (initial_state msg polls) = task_contractId msg"
  "methodArgs (initial_state msg polls) = task_methodArgs msg"
  "blockHeight (initial_state msg polls) = task_blockHeight msg"
  "inbox (initial_state msg polls) = polls"
  "outbox (initial_state msg polls) = []"
  by (simp_all add: initial_state_def)

lemma example_simps:
  "initial_memory (wasmModule (example_task m)) = ascii ''khello''"
  "task_contractId (example_task m) = js ''alice.test''"
  "task_blockHeight (example_task m) = 7"
  "task_methodArgs (example_task m) = ascii ''{}''"
  "task_methodName (example_task m) = m"
  by (simp_all add: example_task_def example_module_def)

lemma example_exports:
  "exports (wasmModule (example_task m)) = exports example_module"
  by (simp add: example_task_def)

lemma example_links: "links (wasmModule (example_task m))"
  by (simp add: links_def env_provides_def named_imports_def example_task_def example_module_def)

lemma receive_loop_replicate:
  "receive_loop (replicate n None @ Some m # rest) = Some (m, rest)"
  by (induction n) simp_all

section \<open>Properties of the host functions\<close>

subsection \<open>current_account_id and input\<close>

text \<open>
  Claim C1 says that \<open>current_account_id\<close> stores the contract identifier in the
  register and does not fail the call. The function reads \<open>ctx.contract_id\<close>, while
  \<open>runWASM\<close> names the property \<open>contractId\<close> (as \<open>storage_read\<close> reads it): the
  lookup gives \<open>undefined\<close>, \<open>Buffer.from(undefined)\<close> throws, and no register is
  written, in every state and for every register. (\<open>input\<close> does store the arguments:
  \<open>input_stores_args\<close>.)
\<close>

theorem current_account_id_throws:
  "current_account_id register_id st = (Throw (TypeError ''ERR_INVALID_ARG_TYPE''), st)"
  by (simp add: current_account_id_def ctx_get_contract_id)

subsection \<open>The composite storage key\<close>

text \<open>
  Claim C7: for every contract identifier and every key that lies in the guest memory, the
  composite key that \<open>storage_read\<close> builds and posts is the UTF-8 bytes of the contract
  identifier, one ASCII colon, and the raw key bytes; for \<open>alice.test\<close> and the key
  \<open>k\<close> it is \<open>alice.test:k\<close>.
\<close>

theorem storage_read_compKey_encoding:
  assumes "0 \<le> sint key_ptr" and "0 \<le> sint key_len"
    and "sint key_ptr + sint key_len \<le> int (length (memory st))"
    and "length (memory st) \<le> 2 ^ 32"
  shows "storage_read_compKey st key_len key_ptr =
           Normal (utf8_encode (contractId st) @ ascii '':''
                   @ take (nat (sint key_len)) (drop (nat (sint key_ptr)) (memory st)))
         \<and> (\<forall>res st'. storage_read key_len key_ptr register_id st = Some (res, st') \<longrightarrow>
               outbox st' = outbox st @
                 [StorageReadRequest
                    (utf8_encode (contractId st) @ ascii '':''
                     @ take (nat (sint key_len)) (drop (nat (sint key_ptr)) (memory st)))])
         \<and> (contractId st = js ''alice.test''
              \<and> take (nat (sint key_len)) (drop (nat (sint key_ptr)) (memory st)) = ascii ''k''
              \<longrightarrow> storage_read_compKey st key_len key_ptr = Normal (ascii ''alice.test:k''))"
proof -
  let ?key = "take (nat (sint key_len)) (drop (nat (sint key_ptr)) (memory st))"
  have ck: "storage_read_compKey st key_len key_ptr =
              Normal (utf8_encode (contractId st) @ ascii '':'' @ ?key)"
    using compKey_general[OF assms] by (simp add: ascii_def)
  have posted: "outbox st' = outbox st @
                 [StorageReadRequest (utf8_encode (contractId st) @ ascii '':'' @ ?key)]"
    if "storage_read key_len key_ptr register_id st = Some (res, st')" for res st'
    using that unfolding storage_read_def ck
    by (auto simp: Let_def split: option.splits)
  have alice: "utf8_encode (js ''alice.test'') @ ascii '':'' @ ascii ''k'' = ascii ''alice.test:k''"
    by (simp add: js_def ascii_def utf8_of_code_unit_def utf8_of_code_point_def
        is_high_surrogate_def is_low_surrogate_def)
  show ?thesis using ck posted alice by auto
qed

text \<open>The example call: the key \<open>k\<close> at address 0 of the example module.\<close>

theorem storage_read_compKey_encoding_witness:
  "storage_read_compKey (initial_state (example_task ''get'') [Some None]) 1 0
     = Normal (ascii ''alice.test:k'')
   \<and> outbox (snd (the (storage_read 1 0 0 (initial_state (example_task ''get'') [Some None]))))
     = [StorageReadRequest (ascii ''alice.test:k'')]"
proof -
  let ?st = "initial_state (example_task ''get'') [Some None]"
  have b: "0 \<le> sint (0::i64)" "0 \<le> sint (1::i64)"
    "sint (0::i64) + sint (1::i64) \<le> int (length (memory ?st))"
    "length (memory ?st) \<le> 2 ^ 32"
    by (simp_all add: initial_state_simps example_simps ascii_def)
  have k: "take (nat (sint (1::i64))) (drop (nat (sint (0::i64))) (memory ?st)) = ascii ''k''"
    by (simp add: initial_state_simps example_simps ascii_def)
  have c: "contractId ?st = js ''alice.test''"
    by (simp add: initial_state_simps example_simps)
  note th = storage_read_compKey_encoding[OF b, of 0]
  from th c k have ck: "storage_read_compKey ?st 1 0 = Normal (ascii ''alice.test:k'')" by blast
  have "\<exists>res st'. storage_read 1 0 0 ?st = Some (res, st')"
    by (simp add: storage_read_def ck initial_state_simps)
  then obtain res st' where r: "storage_read 1 0 0 ?st = Some (res, st')" by blast
  with th have "outbox st' = outbox ?st @ [StorageReadRequest
                    (utf8_encode (contractId ?st) @ ascii '':''
                     @ take (nat (sint (1::i64))) (drop (nat (sint (0::i64))) (memory ?st)))]"
    by blast
  moreover have "utf8_encode (contractId ?st) @ ascii '':''
                     @ take (nat (sint (1::i64))) (drop (nat (sint (0::i64))) (memory ?st))
                 = ascii ''alice.test:k''"
    using th c k ck by simp
  ultimately show ?thesis using ck r by (simp add: initial_state_simps)
qed

subsection \<open>Registers\<close>

lemma to_i64_MAX_U64: "to_i64 MAX_U64 = - 1"
  by (simp add: to_i64_def MAX_U64_def)

lemma register_len_unset:
  "registers st register_id = None \<Longrightarrow>
     register_len register_id st = (Normal (Some (- 1)), st)"
  by (simp add: register_len_def to_i64_MAX_U64)

lemma register_len_written:
  "registers st register_id = Some r \<Longrightarrow>
     register_len register_id st = (Normal (Some (of_nat (length r))), st)"
  by (simp add: register_len_def to_i64_def)

lemma round_to_double_pos: "0 < n \<Longrightarrow> 0 < round_to_double n"
proof (cases "n < 2 ^ 53")
  case True
  assume "0 < n"
  then show ?thesis using True by (simp add: round_to_double_exact)
next
  case False
  then have "2 ^ 53 \<le> n" by simp
  from round_to_double_large[OF this] show ?thesis by simp
qed

lemma Number_negative: "x < 0 \<Longrightarrow> Number x < 0"
  using round_to_double_pos[of "nat (- x)"] by (simp add: Number_def)

lemma Number_beyond:
  assumes "0 \<le> x" and "int L < x + k" and "0 \<le> k" and "L \<le> 2 ^ 32"
  shows "int L < k + Number x"
proof (cases "x < 2 ^ 53")
  case True
  then show ?thesis using assms by (simp add: Number_exact)
next
  case False
  then have "2 ^ 53 \<le> nat x" using assms(1) by (simp add: le_nat_iff)
  from round_to_double_large[OF this] have "2 ^ 53 \<le> Number x"
    using assms(1) by (simp add: Number_def)
  moreover have "int L \<le> 2 ^ 32"
    using assms(4) by (metis of_nat_le_iff of_nat_numeral of_nat_power)
  ultimately show ?thesis using assms(3) by simp
qed

lemma read_register_out_of_bounds:
  assumes "sint ptr < 0
           \<or> int (length (memory st))
               < sint ptr + int (length (case registers st register_id of
                                           None \<Rightarrow> [] | Some r \<Rightarrow> r))"
    and "length (memory st) \<le> 2 ^ 32"
  shows "read_register register_id ptr st =
           (Throw (RangeError ''offset is out of bounds''), st)"
proof (cases "sint ptr < 0")
  case True
  then have "Number (sint ptr) < 0" by (rule Number_negative)
  then show ?thesis by (simp add: read_register_def typed_array_set_def)
next
  case False
  let ?src = "case registers st register_id of None \<Rightarrow> [] | Some r \<Rightarrow> r"
  from False assms(1) have "int (length (memory st)) < sint ptr + int (length ?src)" by simp
  with False have "int (length (memory st)) < int (length ?src) + Number (sint ptr)"
    using Number_beyond[of "sint ptr" "length (memory st)" "int (length ?src)"] assms(2)
    by simp
  moreover have "(case registers st register_id of Some r \<Rightarrow> r | None \<Rightarrow> []) = ?src"
    by (simp split: option.splits)
  ultimately show ?thesis
    by (simp add: read_register_def typed_array_set_def)
qed

lemma read_register_written:
  assumes "registers st register_id = Some r" and "0 \<le> sint ptr"
    and "sint ptr + int (length r) \<le> int (length (memory st))"
    and "length (memory st) \<le> 2 ^ 32"
  shows "read_register register_id ptr st =
           (Normal None,
            st\<lparr>memory := take (nat (sint ptr)) (memory st) @ r
                           @ drop (nat (sint ptr) + length r) (memory st)\<rparr>)"
proof -
  have "\<bar>sint ptr\<bar> < 2 ^ 53" using assms(2,3) mem_bound_int[OF assms(4)] by auto
  then have "Number (sint ptr) = sint ptr" by (rule Number_exact)
  then show ?thesis using assms(1-3) by (simp add: read_register_def typed_array_set_def)
qed

lemma read_register_unset:
  assumes "registers st register_id = None" and "0 \<le> sint ptr"
    and "sint ptr \<le> int (length (memory st))" and "length (memory st) \<le> 2 ^ 32"
  shows "read_register register_id ptr st = (Normal None, st)"
proof -
  have "\<bar>sint ptr\<bar> < 2 ^ 53" using assms(2,3) mem_bound_int[OF assms(4)] by auto
  then have "Number (sint ptr) = sint ptr" by (rule Number_exact)
  then show ?thesis using assms(1-3) by (simp add: read_register_def typed_array_set_def)
qed

lemma storage_read_reply:
  assumes "storage_read_compKey st key_len key_ptr = Normal compKey"
    and "inbox st = replicate n None @ Some reply # rest"
  shows "storage_read key_len key_ptr register_id st =
           (case reply of
              None \<Rightarrow>
                Some (Normal (Some 0),
                      st\<lparr>outbox := outbox st @ [StorageReadRequest compKey], inbox := rest\<rparr>)
            | Some data \<Rightarrow>
                Some (Normal (Some 1),
                      st\<lparr>outbox := outbox st @ [StorageReadRequest compKey], inbox := rest,
                         registers := (registers st)(register_id \<mapsto> data)\<rparr>))"
  using assms
  by (simp add: storage_read_def receive_loop_replicate to_i64_def split: option.splits)

lemma example_state_simps:
  "memory (example_state polls) = ascii ''khello''"
  "registers (example_state polls) = [0 \<mapsto> ascii ''{}'']"
  "contractId (example_state polls) = js ''alice.test''"
  "blockHeight (example_state polls) = 7"
  "inbox (example_state polls) = polls"
  "outbox (example_state polls) = []"
  "logs (example_state polls) = []"
  "result (example_state polls) = None"
  by (simp_all add: example_state_def input_stores_args initial_state_simps example_simps)

text \<open>
  Claim C6, as the code has it. \<open>register_len\<close> of a register never written returns the
  sentinel \<open>2^64 - 1\<close>, and of a written register (also one that a \<open>storage_read\<close>
  with a found value has just filled) its byte length. \<open>read_register\<close> copies exactly
  the register's bytes into the guest memory at \<open>dest_ptr\<close> when they fit between
  \<open>dest_ptr\<close> and the end of the memory, and copies nothing, without trapping, for an
  unset register when \<open>dest_ptr\<close> is at most the size of the memory. Outside these
  bounds, that is for a negative \<open>dest_ptr\<close> or for bytes (none, for an unset register)
  that do not fit behind it, \<open>mem.set\<close> throws a RangeError: the memory stays as it
  was and the call fails.
\<close>

theorem register_len_read_register:
  "(registers st register_id = None \<longrightarrow>
      register_len register_id st = (Normal (Some (- 1)), st)
      \<and> unat (- 1 :: i64) = 2 ^ 64 - 1)
   \<and> (\<forall>r. registers st register_id = Some r \<longrightarrow>
          register_len register_id st = (Normal (Some (of_nat (length r))), st))
   \<and> (\<forall>compKey n data rest.
          storage_read_compKey st0 key_len key_ptr = Normal compKey
          \<and> inbox st0 = replicate n None @ Some (Some data) # rest \<longrightarrow>
          (\<exists>st1. storage_read key_len key_ptr register_id st0 = Some (Normal (Some 1), st1)
                 \<and> registers st1 register_id = Some data
                 \<and> register_len register_id st1 = (Normal (Some (of_nat (length data))), st1)))
   \<and> (\<forall>r. registers st register_id = Some r \<and> 0 \<le> sint ptr
          \<and> sint ptr + int (length r) \<le> int (length (memory st))
          \<and> length (memory st) \<le> 2 ^ 32 \<longrightarrow>
          read_register register_id ptr st =
            (Normal None,
             st\<lparr>memory := take (nat (sint ptr)) (memory st) @ r
                            @ drop (nat (sint ptr) + length r) (memory st)\<rparr>))
   \<and> (registers st register_id = None \<and> 0 \<le> sint ptr
        \<and> sint ptr \<le> int (length (memory st)) \<and> length (memory st) \<le> 2 ^ 32 \<longrightarrow>
        read_register register_id ptr st = (Normal None, st))
   \<and> (length (memory st) \<le> 2 ^ 32
        \<and> (sint ptr < 0
             \<or> int (length (memory st))
                 < sint ptr + int (length (case registers st register_id of
                                             None \<Rightarrow> [] | Some r \<Rightarrow> r))) \<longrightarrow>
        read_register register_id ptr st
          = (Throw (RangeError ''offset is out of bounds''), st))"
proof (intro conjI allI impI)
  show "unat (- 1 :: i64) = 2 ^ 64 - 1" by (simp add: unsigned_minus_1_eq_mask mask_eq_exp_minus_1)
next
  assume "length (memory st) \<le> 2 ^ 32
        \<and> (sint ptr < 0
             \<or> int (length (memory st))
                 < sint ptr + int (length (case registers st register_id of
                                             None \<Rightarrow> [] | Some r \<Rightarrow> r)))"
  then show "read_register register_id ptr st
          = (Throw (RangeError ''offset is out of bounds''), st)"
    using read_register_out_of_bounds[of ptr st register_id] by blast
next
  fix compKey n data rest
  assume a: "storage_read_compKey st0 key_len key_ptr = Normal compKey
          \<and> inbox st0 = replicate n None @ Some (Some data) # rest"
  then have "storage_read key_len key_ptr register_id st0 =
     Some (Normal (Some 1),
           st0\<lparr>outbox := outbox st0 @ [StorageReadRequest compKey], inbox := rest,
               registers := (registers st0)(register_id \<mapsto> data)\<rparr>)"
    using storage_read_reply[of st0 key_len key_ptr compKey n "Some data" rest register_id]
    by simp
  then show "\<exists>st1. storage_read key_len key_ptr register_id st0 = Some (Normal (Some 1), st1)
                 \<and> registers st1 register_id = Some data
                 \<and> register_len register_id st1 = (Normal (Some (of_nat (length data))), st1)"
    by (simp add: register_len_written)
qed (simp_all add: register_len_unset register_len_written read_register_written
      read_register_unset)

theorem register_len_read_register_witness:
  "register_len 1 (example_state []) = (Normal (Some (- 1)), example_state [])
   \<and> register_len 0 (example_state []) = (Normal (Some 2), example_state [])
   \<and> read_register 0 1 (example_state [])
       = (Normal None, (example_state [])\<lparr>memory := ascii ''k{}llo''\<rparr>)
   \<and> read_register 1 6 (example_state []) = (Normal None, example_state [])
   \<and> (\<exists>st1. storage_read 1 0 2 (example_state [None, Some (Some (ascii ''value''))])
               = Some (Normal (Some 1), st1)
             \<and> register_len 2 st1 = (Normal (Some 5), st1))
   \<and> read_register 0 5 (example_state [])
       = (Throw (RangeError ''offset is out of bounds''), example_state [])
   \<and> read_register 0 (- 1) (example_state [])
       = (Throw (RangeError ''offset is out of bounds''), example_state [])"
proof -
  let ?sa = "example_state []"
  let ?sb = "example_state [None, Some (Some (ascii ''value''))]"
  have ck: "storage_read_compKey ?sb 1 0 = Normal (ascii ''alice.test:k'')"
    using compKey_general[of 0 1 ?sb]
    by (simp add: example_state_simps ascii_def js_def utf8_of_code_unit_def
        utf8_of_code_point_def is_high_surrogate_def is_low_surrogate_def)
  have ib: "inbox ?sb = replicate 1 None @ Some (Some (ascii ''value'')) # []"
    by (simp add: example_state_simps)
  note a = register_len_read_register[where st = ?sa and register_id = 1 and ptr = 6
      and ?st0.0 = ?sb and key_len = 1 and key_ptr = 0]
  note b = register_len_read_register[where st = ?sa and register_id = 0 and ptr = 1
      and ?st0.0 = ?sb and key_len = 1 and key_ptr = 0]
  note c = register_len_read_register[where st = ?sa and register_id = 2 and ptr = 0
      and ?st0.0 = ?sb and key_len = 1 and key_ptr = 0]
  have 1: "register_len 1 ?sa = (Normal (Some (- 1)), ?sa)"
    and 4: "read_register 1 6 ?sa = (Normal None, ?sa)"
    using a by (simp_all add: example_state_simps ascii_def)
  have 2: "register_len 0 ?sa = (Normal (Some 2), ?sa)"
    and 3: "read_register 0 1 ?sa = (Normal None, ?sa\<lparr>memory := ascii ''k{}llo''\<rparr>)"
    using b by (simp_all add: example_state_simps ascii_def)
  from c ck ib
  obtain st1 where "storage_read 1 0 2 ?sb = Some (Normal (Some 1), st1)"
    "register_len 2 st1 = (Normal (Some (of_nat (length (ascii ''value'')))), st1)"
    by blast
  then have 5: "\<exists>st1. storage_read 1 0 2 ?sb = Some (Normal (Some 1), st1)
             \<and> register_len 2 st1 = (Normal (Some 5), st1)"
    by (auto simp: ascii_def)
  note d = register_len_read_register[where st = ?sa and register_id = 0 and ptr = 5
      and ?st0.0 = ?sb and key_len = 1 and key_ptr = 0]
  note e = register_len_read_register[where st = ?sa and register_id = 0 and ptr = "- 1"
      and ?st0.0 = ?sb and key_len = 1 and key_ptr = 0]
  have 6: "read_register 0 5 ?sa = (Throw (RangeError ''offset is out of bounds''), ?sa)"
    using d by (simp add: example_state_simps ascii_def)
  have 7: "read_register 0 (- 1) ?sa = (Throw (RangeError ''offset is out of bounds''), ?sa)"
    using e by (simp add: example_state_simps ascii_def)
  from 1 2 3 4 5 6 7 show ?thesis by blast
qed

text \<open>
  Claim C6 as stated fails: with an unset register \<open>read_register\<close> still traps when
  \<open>dest_ptr\<close> lies beyond the end of the memory (here 7, in a memory of 6 bytes),
  because \<open>mem.set\<close> checks the offset also for an empty source.
\<close>

theorem read_register_unset_traps:
  "registers (example_state []) 1 = None
   \<and> length (memory (example_state [])) = 6
   \<and> read_register 1 7 (example_state [])
       = (Throw (RangeError ''offset is out of bounds''), example_state [])"
  by (simp add: example_state_simps ascii_def read_register_def typed_array_set_def Number_exact)

subsection \<open>value_return\<close>







subsection \<open>Logging\<close>

lemma log_with_in_bounds:
  assumes "0 \<le> sint ptr" and "0 \<le> sint len"
    and "sint ptr + sint len \<le> int (length (memory st))" and "length (memory st) \<le> 2 ^ 32"
  shows "log_with decode enc len ptr st =
           (case Buffer_toString decode (take (nat (sint len)) (drop (nat (sint ptr)) (memory st))) enc of
              Throw e \<Rightarrow> (Throw e, st)
            | Normal message \<Rightarrow> (Normal None, st\<lparr>logs := logs st @ [message]\<rparr>))"
  using assms by (simp add: log_with_def Uint8Array_view_in_bounds)

lemma log_utf8_appends:
  assumes "0 \<le> sint ptr" and "0 \<le> sint len"
    and "sint ptr + sint len \<le> int (length (memory st))" and "length (memory st) \<le> 2 ^ 32"
  shows "log_utf8 decode len ptr st =
           (Normal None,
            st\<lparr>logs := logs st @
                  [let view = take (nat (sint len)) (drop (nat (sint ptr)) (memory st))
                   in if view = [] then [] else decode UTF8 view]\<rparr>)"
  using log_with_in_bounds[OF assms]
  by (simp add: log_utf8_def Buffer_toString_def getEncodingOps_def Let_def)

lemma log_utf16_throws:
  assumes "0 \<le> sint ptr" and "0 < sint len"
    and "sint ptr + sint len \<le> int (length (memory st))" and "length (memory st) \<le> 2 ^ 32"
  shows "log_utf16 decode len ptr st = (Throw (TypeError ''ERR_UNKNOWN_ENCODING''), st)"
proof -
  have "take (nat (sint len)) (drop (nat (sint ptr)) (memory st)) \<noteq> []"
    using assms by auto
  then show ?thesis
    using log_with_in_bounds[of ptr len st decode "''utf16''"] assms
    by (simp add: log_utf16_def Buffer_toString_def getEncodingOps_def)
qed

text \<open>
  Claim C3 says that \<open>log_utf16\<close> appends the decoded bytes and does not fail the call.
  It asks \<open>toString\<close> for the encoding \<open>utf16\<close>, which is none of Node's encodings
  (\<open>readUTF16CStr\<close> uses \<open>ucs2\<close>): for every non-empty range in the memory the call
  throws and nothing is logged (\<open>log_utf16_throws\<close>). \<open>log_utf8\<close> on the same range
  does append the decoded string (\<open>log_utf8_appends\<close>).
\<close>

theorem log_utf16_fails_the_call:
  "log_utf16 decode 2 1 (example_state []) = (Throw (TypeError ''ERR_UNKNOWN_ENCODING''), example_state [])
   \<and> log_utf8 decode 2 1 (example_state [])
       = (Normal None, (example_state [])\<lparr>logs := [decode UTF8 (ascii ''he'')]\<rparr>)"
proof -
  have b: "0 \<le> sint (1::i64)" "0 < sint (2::i64)" "0 \<le> sint (2::i64)"
    "sint (1::i64) + sint (2::i64) \<le> int (length (memory (example_state [])))"
    "length (memory (example_state [])) \<le> 2 ^ 32"
    by (simp_all add: example_state_simps ascii_def)
  show ?thesis
    using log_utf16_throws[OF b(1) b(2) b(4) b(5), of decode]
      log_utf8_appends[OF b(1) b(3) b(4) b(5), of decode]
    by (simp add: example_state_simps ascii_def)
qed

subsection \<open>storage_read\<close>

lemma storage_lookup_None_iff:
  "storage_lookup client compKey height = None \<longleftrightarrow>
     (case getLatestDataBlockHash client compKey height of
        None \<Rightarrow> True
      | Some blockHash \<Rightarrow> getData client compKey blockHash = None)"
  by (simp add: storage_lookup_def split: option.splits)

lemma on_message_storage_read:
  "kTaskInfo (worker_obj pl w) = Some ti \<Longrightarrow>
     on_message w (StorageReadRequest compKey) pl =
       Inr (pl\<lparr>posted := posted pl @
              [(w, StorageReply (storage_lookup (storageClient pl) compKey (ti_blockHeight ti)))]\<rparr>)"
  by (simp add: on_message_def)

text \<open>
  Claim C5, as the code has it. For a key that lies in the guest memory, the pool answers
  the worker's request with the value the storage client has for the composite key at the
  call's block height, and once that reply is on the port (after any number of empty
  polls) \<open>storage_read\<close> returns 0 and leaves every register as it was when the client
  reports no value, and returns 1 with \<open>register_id\<close> holding exactly the fetched bytes
  otherwise.
\<close>

theorem storage_read_outcome:
  assumes "storage_read_compKey st key_len key_ptr = Normal compKey"
    and "kTaskInfo (worker_obj pl w) = Some ti" and "ti_blockHeight ti = blockHeight st"
    and "inbox st = replicate n None
                    @ Some (storage_lookup (storageClient pl) compKey (blockHeight st)) # rest"
  shows "on_message w (StorageReadRequest compKey) pl =
           Inr (pl\<lparr>posted := posted pl @
                  [(w, StorageReply (storage_lookup (storageClient pl) compKey
                                       (blockHeight st)))]\<rparr>)
         \<and> (storage_lookup (storageClient pl) compKey (blockHeight st) = None \<longrightarrow>
              storage_read key_len key_ptr register_id st =
                Some (Normal (Some 0),
                      st\<lparr>outbox := outbox st @ [StorageReadRequest compKey], inbox := rest\<rparr>))
         \<and> (\<forall>data. storage_lookup (storageClient pl) compKey (blockHeight st) = Some data \<longrightarrow>
              storage_read key_len key_ptr register_id st =
                Some (Normal (Some 1),
                      st\<lparr>outbox := outbox st @ [StorageReadRequest compKey], inbox := rest,
                         registers := (registers st)(register_id \<mapsto> data)\<rparr>))"
  using on_message_storage_read[OF assms(2), of compKey] assms(3)
    storage_read_reply[OF assms(1) assms(4), of register_id]
  by simp

lemma WorkerPool_1:
  "WorkerPool 1 client env_value =
     \<lparr>numThreads = 1, workers = [0], freeWorkers = [0], storageClient = client,
      worker_obj = (\<lambda>w. \<lparr>kTaskInfo = None, terminated = False, exited = False\<rparr>), next_worker = 1,
      freed_listeners = [], promises = (\<lambda>p. Pending), next_promise = 0,
      timers = Map.empty, delays = Map.empty, timeout_env = env_value, next_timer = 0,
      posted = [], error_listener = False, emitted_errors = []\<rparr>"
  by (simp add: WorkerPool_def addNewWorker_def emit_kWorkerFreedEvent_def Let_def fun_eq_iff)

lemma example_pool_task:
  "kTaskInfo (worker_obj (example_pool m) 0) =
     Some \<lparr>promise = 0, ti_blockHeight = 7, ti_contractId = js ''alice.test'',
           ti_methodName = m, timeoutHandle = Some 0, didTimeout = False\<rparr>"
  "storageClient (example_pool m) = example_client"
  "posted (example_pool m) = [(0, Task (example_task m))]"
  unfolding example_pool_def WorkerPool_1
  by (simp_all add: runContract_def runContract_body_def Let_def set_task_def example_simps)

lemma example_lookup:
  "storage_lookup example_client (ascii ''alice.test:k'') 7 = Some (ascii ''value'')"
  "storage_lookup example_client (ascii ''alice.test:h'') 7 = None"
  by (simp_all add: storage_lookup_def example_client_def ascii_def)

lemma example_compKey:
  "storage_read_compKey (example_state polls) 1 0 = Normal (ascii ''alice.test:k'')"
  "storage_read_compKey (example_state polls) 1 1 = Normal (ascii ''alice.test:h'')"
  using compKey_general[of 0 1 "example_state polls"] compKey_general[of 1 1 "example_state polls"]
  by (simp_all add: example_state_simps ascii_def js_def utf8_of_code_unit_def
        utf8_of_code_point_def is_high_surrogate_def is_low_surrogate_def)

theorem storage_read_outcome_witness:
  "storage_read 1 0 3 (example_state [None, Some (Some (ascii ''value''))])
     = Some (Normal (Some 1),
             (example_state [None, Some (Some (ascii ''value''))])
               \<lparr>outbox := [StorageReadRequest (ascii ''alice.test:k'')], inbox := [],
                registers := [0 \<mapsto> ascii ''{}'', 3 \<mapsto> ascii ''value'']\<rparr>)
   \<and> storage_read 1 1 3 (example_state [Some None])
     = Some (Normal (Some 0),
             (example_state [Some None])
               \<lparr>outbox := [StorageReadRequest (ascii ''alice.test:h'')], inbox := []\<rparr>)
   \<and> on_message 0 (StorageReadRequest (ascii ''alice.test:k'')) (example_pool ''get'')
     = Inr ((example_pool ''get'')\<lparr>posted := [(0, Task (example_task ''get'')),
                                       (0, StorageReply (Some (ascii ''value'')))]\<rparr>)"
proof -
  let ?sa = "example_state [None, Some (Some (ascii ''value''))]"
  let ?sb = "example_state [Some None]"
  let ?ti = "\<lparr>promise = 0, ti_blockHeight = 7, ti_contractId = js ''alice.test'',
           ti_methodName = ''get'', timeoutHandle = Some 0, didTimeout = False\<rparr>"
  have h: "ti_blockHeight ?ti = blockHeight ?sa" "ti_blockHeight ?ti = blockHeight ?sb"
    by (simp_all add: example_state_simps)
  have ia: "inbox ?sa = replicate 1 None
      @ Some (storage_lookup (storageClient (example_pool ''get'')) (ascii ''alice.test:k'') (blockHeight ?sa)) # []"
    by (simp add: example_state_simps example_pool_task example_lookup)
  have ib: "inbox ?sb = replicate 0 None
      @ Some (storage_lookup (storageClient (example_pool ''get'')) (ascii ''alice.test:h'') (blockHeight ?sb)) # []"
    by (simp add: example_state_simps example_pool_task example_lookup)
  from storage_read_outcome[OF example_compKey(1) example_pool_task(1) h(1) ia, of 3]
    storage_read_outcome[OF example_compKey(2) example_pool_task(1) h(2) ib, of 3]
  show ?thesis
    by (simp add: example_state_simps example_pool_task example_lookup fun_upd_twist)
qed

text \<open>
  Claim C5 as stated fails where it says the register is left unset: a miss does not touch
  the register, so a register written earlier (here register 0, by \<open>input\<close>) still holds
  its bytes after \<open>storage_read\<close> has returned 0.
\<close>

theorem storage_read_miss_keeps_register:
  "storage_lookup example_client (ascii ''alice.test:h'') 7 = None
   \<and> storage_read 1 1 0 (example_state [Some None])
     = Some (Normal (Some 0),
             (example_state [Some None])
               \<lparr>outbox := [StorageReadRequest (ascii ''alice.test:h'')], inbox := []\<rparr>)
   \<and> registers ((example_state [Some None])
               \<lparr>outbox := [StorageReadRequest (ascii ''alice.test:h'')], inbox := []\<rparr>) 0
     = Some (ascii ''{}'')"
  using storage_read_reply[OF example_compKey(2), of "[Some None]" 0 None "[]" 0]
  by (simp add: example_lookup example_state_simps)

subsection \<open>Functions prohibited in a view call\<close>

lemma js_append: "js (a @ b) = js a @ js b"
  by (simp add: js_def)

lemma view_error_not_unimplemented:
  "js ''method not available for view calls: '' @ a \<noteq> js ''method not implemented: '' @ b"
  by (simp add: js_def)

lemma view_error_not_panic:
  "js ''method not available for view calls: '' @ a \<noteq> js ''panic: explicit guest panic''"
  by (simp add: js_def)

lemma prohibited_lookup:
  "name \<in> set prohibited_for_view \<Longrightarrow> map_of named_imports name = Some (prohibitedInView name)"
  unfolding prohibited_for_view_def named_imports_def
  by (elim set_ConsD[elim_format] disjE) simp_all

lemma run_guest_append:
  "run_guest decode (pre @ ops) st =
     (case run_guest decode pre st of
        None \<Rightarrow> None
      | Some (Throw e, st') \<Rightarrow> Some (Throw e, st')
      | Some (Normal u, st') \<Rightarrow> run_guest decode ops st')"
proof (induction pre arbitrary: st)
  case Nil
  show ?case by simp
next
  case (Cons op pre)
  show ?case
  proof (cases op)
    case (Call c)
    then show ?thesis using Cons.IH
      by (simp split: option.splits prod.splits completion.splits)
  next
    case (Store addr bs)
    then show ?thesis using Cons.IH by simp
  next
    case Unreachable
    then show ?thesis by simp
  qed
qed

text \<open>
  Claim C8: every function that is prohibited in a view call (signer and predecessor
  identity, attached deposit, gas queries, the promise functions, \<open>storage_write\<close>,
  \<open>storage_remove\<close>), called with any arguments in any state of any call, throws the
  error "method not available for view calls", which ends the run of the guest at once;
  the state after the throw is the state before it, so no register, no byte of memory and
  no log entry has changed; and the error differs from the errors of the unimplemented
  functions and of \<open>panic\<close>.
\<close>

theorem prohibited_in_view:
  "\<forall>name \<in> set prohibited_for_view.
     env decode (Named name args) st
       = Some (Throw (Error (js ''method not available for view calls: '' @ js name)), st)
     \<and> (\<forall>st0 pre ops. run_guest decode pre st0 = Some (Normal (), st) \<longrightarrow>
           run_guest decode (pre @ Call (Named name args) # ops) st0
             = Some (Throw (Error (js ''method not available for view calls: '' @ js name)), st))
     \<and> (\<forall>other. Error (js ''method not available for view calls: '' @ js name)
                   \<noteq> Error (js ''method not implemented: '' @ js other))
     \<and> Error (js ''method not available for view calls: '' @ js name)
           \<noteq> Error (js ''panic: explicit guest panic'')"
proof (intro ballI conjI allI impI)
  fix name assume n: "name \<in> set prohibited_for_view"
  show e: "env decode (Named name args) st
       = Some (Throw (Error (js ''method not available for view calls: '' @ js name)), st)"
    by (simp add: prohibited_lookup[OF n] prohibitedInView_def)
  fix st0 pre ops assume "run_guest decode pre st0 = Some (Normal (), st)"
  then show "run_guest decode (pre @ Call (Named name args) # ops) st0
             = Some (Throw (Error (js ''method not available for view calls: '' @ js name)), st)"
    by (simp add: run_guest_append e del: env.simps)
qed (simp_all add: view_error_not_unimplemented view_error_not_panic)

text \<open>
  The example: \<open>storage_write\<close> called after a log entry; the run ends there, the log
  entry made before stays the only change, and the worker reports the error.
\<close>

theorem prohibited_in_view_witness:
  "env bytewise_decoder (Named ''storage_write'' [1, 0, 1, 1, 0]) (example_state [])
     = Some (Throw (Error (js ''method not available for view calls: storage_write'')),
             example_state [])
   \<and> run_guest bytewise_decoder
        [Call (Log_utf8 5 1), Call (Named ''storage_write'' [1, 0, 1, 1, 0]), Call (Value_return 1 0)]
        (example_state [])
     = Some (Throw (Error (js ''method not available for view calls: storage_write'')),
             (example_state [])\<lparr>logs := [js ''hello'']\<rparr>)
   \<and> worker_on_message bytewise_decoder (example_task ''write'') []
     = Some [Failed (Error (js ''method not available for view calls: storage_write''))]"
proof -
  let ?sa = "example_state []"
  let ?sb = "?sa\<lparr>logs := [js ''hello'']\<rparr>"
  let ?sc = "(initial_state (example_task ''write'') [])\<lparr>logs := [js ''hello'']\<rparr>"
  have n: "''storage_write'' \<in> set prohibited_for_view"
    by (simp add: prohibited_for_view_def)
  have pre: "run_guest bytewise_decoder [Call (Log_utf8 5 1)] ?sa = Some (Normal (), ?sb)"
    using log_utf8_appends[of 1 5 ?sa bytewise_decoder]
    by (simp add: example_state_simps bytewise_decoder_def ascii_def js_def)
  have pre2: "run_guest bytewise_decoder [Call (Log_utf8 5 1)]
                (initial_state (example_task ''write'') []) = Some (Normal (), ?sc)"
    using log_utf8_appends[of 1 5 "initial_state (example_task ''write'') []" bytewise_decoder]
    by (simp add: initial_state_simps example_simps bytewise_decoder_def ascii_def js_def)
  note a = prohibited_in_view[of bytewise_decoder "[1, 0, 1, 1, 0]" ?sa, THEN bspec, OF n]
  note b = prohibited_in_view[of bytewise_decoder "[1, 0, 1, 1, 0]" ?sb, THEN bspec, OF n]
  note c = prohibited_in_view[of bytewise_decoder "[1, 0, 1, 1, 0]" ?sc, THEN bspec, OF n]
  have 1: "env bytewise_decoder (Named ''storage_write'' [1, 0, 1, 1, 0]) ?sa
     = Some (Throw (Error (js ''method not available for view calls: storage_write'')), ?sa)"
    using a by (simp add: js_def)
  from b have "\<forall>st0 pre ops. run_guest bytewise_decoder pre st0 = Some (Normal (), ?sb) \<longrightarrow>
           run_guest bytewise_decoder (pre @ Call (Named ''storage_write'' [1, 0, 1, 1, 0]) # ops) st0
             = Some (Throw (Error (js ''method not available for view calls: ''
                                   @ js ''storage_write'')), ?sb)"
    by blast
  from this[rule_format, OF pre, of "[Call (Value_return 1 0)]"]
  have 2: "run_guest bytewise_decoder
        [Call (Log_utf8 5 1), Call (Named ''storage_write'' [1, 0, 1, 1, 0]), Call (Value_return 1 0)] ?sa
     = Some (Throw (Error (js ''method not available for view calls: storage_write'')), ?sb)"
    by (simp add: js_def del: run_guest.simps)
  from c have "\<forall>st0 pre ops. run_guest bytewise_decoder pre st0 = Some (Normal (), ?sc) \<longrightarrow>
           run_guest bytewise_decoder (pre @ Call (Named ''storage_write'' [1, 0, 1, 1, 0]) # ops) st0
             = Some (Throw (Error (js ''method not available for view calls: ''
                                   @ js ''storage_write'')), ?sc)"
    by blast
  from this[rule_format, OF pre2, of "[]"]
  have 3: "run_guest bytewise_decoder
        [Call (Log_utf8 5 1), Call (Named ''storage_write'' [1, 0, 1, 1, 0])]
        (initial_state (example_task ''write'') [])
     = Some (Throw (Error (js ''method not available for view calls: storage_write'')), ?sc)"
    by (simp add: js_def del: run_guest.simps)
  have l: "links (wasmModule (example_task ''write''))"
    by (rule example_links)
  have x: "exports (wasmModule (example_task ''write'')) (task_methodName (example_task ''write''))
             = Some [Call (Log_utf8 5 1), Call (Named ''storage_write'' [1, 0, 1, 1, 0])]"
    by (simp add: example_task_def example_module_def)
  have 4: "worker_on_message bytewise_decoder (example_task ''write'') []
     = Some [Failed (Error (js ''method not available for view calls: storage_write''))]"
    using 3 l x
    by (simp add: worker_on_message_def runWASM_def initial_state_simps del: run_guest.simps)
  from 1 2 4 show ?thesis by simp
qed

section \<open>Properties of the worker pool\<close>

subsection \<open>What the queue and a new worker leave unchanged\<close>

lemma runContract_body_keeps:
  "promises (runContract_body p call pl) = promises pl"
  "workers (runContract_body p call pl) = workers pl"
  "numThreads (runContract_body p call pl) = numThreads pl"
  "next_worker (runContract_body p call pl) = next_worker pl"
  "error_listener (runContract_body p call pl) = error_listener pl"
  "terminated (worker_obj (runContract_body p call pl) v) = terminated (worker_obj pl v)"
  by (simp_all add: runContract_body_def set_task_def Let_def)

lemma fold_runContract_body_keeps:
  "promises (fold (\<lambda>(p, call). runContract_body p call) xs pl) = promises pl
   \<and> workers (fold (\<lambda>(p, call). runContract_body p call) xs pl) = workers pl
   \<and> numThreads (fold (\<lambda>(p, call). runContract_body p call) xs pl) = numThreads pl
   \<and> next_worker (fold (\<lambda>(p, call). runContract_body p call) xs pl) = next_worker pl
   \<and> error_listener (fold (\<lambda>(p, call). runContract_body p call) xs pl) = error_listener pl
   \<and> terminated (worker_obj (fold (\<lambda>(p, call). runContract_body p call) xs pl) v)
       = terminated (worker_obj pl v)"
proof (induction xs arbitrary: pl)
  case Nil
  show ?case by simp
next
  case (Cons x xs)
  obtain p call where x: "x = (p, call)" by (cases x)
  show ?case using Cons.IH[of "runContract_body p call pl"]
    by (simp add: x runContract_body_keeps)
qed

lemma emit_keeps:
  "promises (emit_kWorkerFreedEvent pl) = promises pl"
  "workers (emit_kWorkerFreedEvent pl) = workers pl"
  "numThreads (emit_kWorkerFreedEvent pl) = numThreads pl"
  "next_worker (emit_kWorkerFreedEvent pl) = next_worker pl"
  "error_listener (emit_kWorkerFreedEvent pl) = error_listener pl"
  "terminated (worker_obj (emit_kWorkerFreedEvent pl) v) = terminated (worker_obj pl v)"
  using fold_runContract_body_keeps[of "freed_listeners pl" "pl\<lparr>freed_listeners := []\<rparr>" v]
  by (simp_all add: emit_kWorkerFreedEvent_def)

lemma addNewWorker_keeps:
  "promises (addNewWorker pl) = promises pl"
  "workers (addNewWorker pl) = workers pl @ [next_worker pl]"
  "numThreads (addNewWorker pl) = numThreads pl"
  "next_worker (addNewWorker pl) = Suc (next_worker pl)"
  "terminated (worker_obj (addNewWorker pl) v)
     = (if v = next_worker pl then False else terminated (worker_obj pl v))"
  by (simp_all add: addNewWorker_def Let_def emit_keeps)

lemma length_splice_indexOf:
  "w \<in> set ws \<Longrightarrow> Suc (length (splice_indexOf ws w)) = length ws"
proof -
  assume a: "w \<in> set ws"
  then have "0 < length ws" by (cases ws) auto
  then show ?thesis using a by (simp add: splice_indexOf_def length_remove1)
qed

lemma default_timeout: "setTimeout_delay (CONTRACT_TIMEOUT_MS None) = 1000"
  by (simp add: setTimeout_delay_def CONTRACT_TIMEOUT_MS_def parseInt_def js_def
      is_white_space_def digit_value_def)

lemma runContract_arms_timer:
  assumes "freeWorkers pl \<noteq> []"
  shows "timers (snd (runContract call pl)) (next_timer pl) = Some (last (freeWorkers pl))"
    and "delays (snd (runContract call pl)) (next_timer pl)
           = Some (setTimeout_delay (CONTRACT_TIMEOUT_MS (timeout_env pl)))"
  using assms by (simp_all add: runContract_def runContract_body_def Let_def set_task_def)

lemma on_timeout_armed:
  assumes "timers pl t = Some w" and "kTaskInfo (worker_obj pl w) = Some ti"
  shows "on_timeout t pl =
           terminate w (set_task w (Some (ti\<lparr>didTimeout := True\<rparr>))
                          (pl\<lparr>timers := (timers pl)(t := None)\<rparr>))"
  using assms by (simp add: on_timeout_def)

subsection \<open>Timeout\<close>

text \<open>
  The timer is the one \<open>runContract\<close> arms for the worker it claims, with the delay
  \<open>CONTRACT_TIMEOUT_MS\<close>, which is 1000 ms when the environment does not set it
  (\<open>runContract_arms_timer\<close>, \<open>default_timeout\<close>). When the timer of a call fires
  while its worker still holds the task, and that worker is on the pool's list with a
  thread that has not exited, the callback destroys the thread, and the thread's exit
  rejects the caller's promise with "<contractId>.<methodName> execution timed out", takes
  the worker off the list and puts a new, live worker on it, so that the pool again has
  \<open>numThreads\<close> workers.
\<close>

lemma timeout_on_running_worker:
  assumes "timers pl t = Some w" and "kTaskInfo (worker_obj pl w) = Some ti"
    and "promises pl (promise ti) = Pending"
    and "w \<in> set (workers pl)" and "length (workers pl) = numThreads pl"
    and "w < next_worker pl" and "\<not> exited (worker_obj pl w)"
  shows "terminated (worker_obj (on_timeout t pl) w)
         \<and> (\<exists>pl2. thread_exit w code (on_timeout t pl) = Inr pl2
               \<and> promises pl2 (promise ti)
                   = Rejected (Error (ti_contractId ti @ js ''.'' @ js (ti_methodName ti)
                                      @ js '' execution timed out''))
               \<and> terminated (worker_obj pl2 w)
               \<and> workers pl2 = remove1 w (workers pl) @ [next_worker pl]
               \<and> (distinct (workers pl) \<longrightarrow> w \<notin> set (workers pl2))
               \<and> \<not> terminated (worker_obj pl2 (next_worker pl))
               \<and> length (workers pl2) = numThreads pl2
               \<and> numThreads pl2 = numThreads pl)"
proof -
  let ?p0 = "on_timeout t pl"
  let ?p1 = "?p0\<lparr>worker_obj := (worker_obj ?p0)(w := (worker_obj ?p0 w)\<lparr>exited := True\<rparr>)\<rparr>"
  have p0: "?p0 = terminate w (set_task w (Some (ti\<lparr>didTimeout := True\<rparr>))
                          (pl\<lparr>timers := (timers pl)(t := None)\<rparr>))"
    by (rule on_timeout_armed[OF assms(1,2)])
  have e0: "\<not> exited (worker_obj ?p0 w)" and t0: "terminated (worker_obj ?p0 w)"
    and k0: "kTaskInfo (worker_obj ?p0 w) = Some (ti\<lparr>didTimeout := True\<rparr>)"
    and pr0: "promises ?p0 = promises pl" and w0: "workers ?p0 = workers pl"
    and n0: "numThreads ?p0 = numThreads pl" and nw0: "next_worker ?p0 = next_worker pl"
    unfolding p0 using assms(7) by (simp_all add: terminate_def set_task_def)
  have t1: "terminated (worker_obj ?p1 w)"
    and k1: "kTaskInfo (worker_obj ?p1 w) = Some (ti\<lparr>didTimeout := True\<rparr>)"
    and pr1: "promises ?p1 = promises pl" and w1: "workers ?p1 = workers pl"
    and n1: "numThreads ?p1 = numThreads pl" and nw1: "next_worker ?p1 = next_worker pl"
    unfolding p0 by (simp_all add: terminate_def set_task_def)
  let ?err = "Error (ti_contractId ti @ js ''.'' @ js (ti_methodName ti) @ js '' execution timed out'')"
  let ?p2 = "addNewWorker ((settle (promise ti) (Rejected ?err) ?p1)
                \<lparr>workers := splice_indexOf (workers (settle (promise ti) (Rejected ?err) ?p1)) w\<rparr>)"
  have "on_exit w code ?p1 = Inr ?p2"
    by (simp add: on_exit_def on_error_def k0)
  then have ex: "thread_exit w code ?p0 = Inr ?p2"
    using e0 by (simp add: thread_exit_def)
  have s: "promises (settle (promise ti) (Rejected ?err) ?p1) (promise ti) = Rejected ?err"
    "workers (settle (promise ti) (Rejected ?err) ?p1) = workers pl"
    "numThreads (settle (promise ti) (Rejected ?err) ?p1) = numThreads pl"
    "next_worker (settle (promise ti) (Rejected ?err) ?p1) = next_worker pl"
    "terminated (worker_obj (settle (promise ti) (Rejected ?err) ?p1) w)"
    using assms(3) t0 by (simp_all add: settle_def pr0 w0 n0 nw0)
  have sp: "splice_indexOf (workers pl) w = remove1 w (workers pl)"
    using assms(4) by (simp add: splice_indexOf_def)
  have a: "promises ?p2 (promise ti) = Rejected ?err"
    and b: "terminated (worker_obj ?p2 w)"
    and c: "workers ?p2 = remove1 w (workers pl) @ [next_worker pl]"
    and d: "\<not> terminated (worker_obj ?p2 (next_worker pl))"
    and e: "numThreads ?p2 = numThreads pl"
    using s assms(6) by (simp_all add: addNewWorker_keeps sp)
  have f: "length (workers ?p2) = numThreads ?p2"
    using length_splice_indexOf[OF assms(4)] assms(5) s
    by (simp add: addNewWorker_keeps)
  have g: "distinct (workers pl) \<longrightarrow> w \<notin> set (workers ?p2)"
    using c assms(6) by auto
  show ?thesis using t0 ex a b c d e f g by blast
qed

lemma example_pool_fields:
  "timers (example_pool m) = [0 \<mapsto> 0]"
  "promises (example_pool m) = (\<lambda>p. Pending)"
  "workers (example_pool m) = [0]"
  "freeWorkers (example_pool m) = []"
  "numThreads (example_pool m) = 1"
  "next_worker (example_pool m) = 1"
  "freed_listeners (example_pool m) = []"
  "error_listener (example_pool m) = False"
  "terminated (worker_obj (example_pool m) v) = False"
  "exited (worker_obj (example_pool m) v) = False"
  unfolding example_pool_def WorkerPool_1
  by (simp_all add: runContract_def runContract_body_def Let_def set_task_def)

text \<open>
  The example: the method \<open>spin\<close> waits for a storage reply that does not come; its
  timer, set with the default delay of 1000 ms, fires, and the worker's thread exits.
\<close>

lemma timeout_on_running_worker_example:
  "terminated (worker_obj (on_timeout 0 (example_pool ''spin'')) 0)
   \<and> (\<exists>pl2. thread_exit 0 ''1'' (on_timeout 0 (example_pool ''spin'')) = Inr pl2
         \<and> promises pl2 0 = Rejected (Error (js ''alice.test.spin execution timed out''))
         \<and> terminated (worker_obj pl2 0)
         \<and> workers pl2 = [1]
         \<and> \<not> terminated (worker_obj pl2 1)
         \<and> length (workers pl2) = numThreads pl2
         \<and> numThreads pl2 = 1)
   \<and> worker_on_message bytewise_decoder (example_task ''spin'') [None, None, None] = None
   \<and> timers (example_pool ''spin'') 0 = Some 0
   \<and> delays (example_pool ''spin'') 0 = Some 1000"
proof -
  let ?ti = "\<lparr>promise = 0, ti_blockHeight = 7, ti_contractId = js ''alice.test'',
           ti_methodName = ''spin'', timeoutHandle = Some 0, didTimeout = False\<rparr>"
  have a: "timers (example_pool ''spin'') 0 = Some 0"
    "promises (example_pool ''spin'') (promise ?ti) = Pending"
    "0 \<in> set (workers (example_pool ''spin''))"
    "length (workers (example_pool ''spin'')) = numThreads (example_pool ''spin'')"
    "0 < next_worker (example_pool ''spin'')"
    "\<not> exited (worker_obj (example_pool ''spin'') 0)"
    by (simp_all add: example_pool_fields)
  have spin: "worker_on_message bytewise_decoder (example_task ''spin'') [None, None, None] = None"
    using compKey_general[of 0 1 "initial_state (example_task ''spin'') [None, None, None]"]
    by (simp add: worker_on_message_def runWASM_def example_links example_simps example_exports
        example_module_def storage_read_def initial_state_simps ascii_def)
  let ?p0 = "WorkerPool 1 example_client None"
  have f: "freeWorkers ?p0 \<noteq> []" "next_timer ?p0 = 0" "last (freeWorkers ?p0) = 0"
    "timeout_env ?p0 = None"
    unfolding WorkerPool_1 by simp_all
  from runContract_arms_timer[OF f(1), of "example_task ''spin''"]
  have d: "timers (example_pool ''spin'') 0 = Some 0 \<and> delays (example_pool ''spin'') 0 = Some 1000"
    unfolding example_pool_def f(2) f(3) f(4) default_timeout by simp
  from timeout_on_running_worker[OF a(1) example_pool_task(1) a(2) a(3) a(4) a(5) a(6), of "''1''"]
  obtain pl2 where t: "terminated (worker_obj (on_timeout 0 (example_pool ''spin'')) 0)"
    and p: "thread_exit 0 ''1'' (on_timeout 0 (example_pool ''spin'')) = Inr pl2"
      "promises pl2 0 = Rejected (Error (js ''alice.test.spin execution timed out''))"
      "terminated (worker_obj pl2 0)" "workers pl2 = [1]" "\<not> terminated (worker_obj pl2 1)"
      "length (workers pl2) = numThreads pl2" "numThreads pl2 = 1"
    by (auto simp: example_pool_fields js_def)
  show ?thesis using t p spin d by blast
qed

subsection \<open>Timeout on a worker whose thread has exited\<close>

lemma idle_exit_pool_fields:
  "workers idle_exit_pool = [1]"
  "freeWorkers idle_exit_pool = [0, 1]"
  "numThreads idle_exit_pool = 1"
  "next_worker idle_exit_pool = 2"
  "next_timer idle_exit_pool = 0"
  "next_promise idle_exit_pool = 0"
  "timers idle_exit_pool = Map.empty"
  "delays idle_exit_pool = Map.empty"
  "timeout_env idle_exit_pool = None"
  "promises idle_exit_pool = (\<lambda>p. Pending)"
  "posted idle_exit_pool = []"
  "freed_listeners idle_exit_pool = []"
  "exited (worker_obj idle_exit_pool v) = (v = 0)"
  "terminated (worker_obj idle_exit_pool v) = False"
  "kTaskInfo (worker_obj idle_exit_pool v) = None"
  unfolding idle_exit_pool_def WorkerPool_1
  by (simp_all add: thread_exit_def on_exit_def on_error_def addNewWorker_def
      emit_kWorkerFreedEvent_def splice_indexOf_def Let_def)

lemma stale_pool_fields:
  "workers stale_pool = [1]"
  "next_worker stale_pool = 2"
  "timers stale_pool = [0 \<mapsto> 1, 1 \<mapsto> 0]"
  "delays stale_pool = [0 \<mapsto> 1000, 1 \<mapsto> 1000]"
  "promises stale_pool = (\<lambda>p. Pending)"
  "posted stale_pool = [(1, Task (example_task ''spin'')), (0, Task (example_task ''spin''))]"
  "exited (worker_obj stale_pool v) = (v = 0)"
  "kTaskInfo (worker_obj stale_pool 0) =
     Some \<lparr>promise = 1, ti_blockHeight = 7, ti_contractId = js ''alice.test'',
           ti_methodName = ''spin'', timeoutHandle = Some 1, didTimeout = False\<rparr>"
  unfolding stale_pool_def
  by (simp_all add: runContract_def runContract_body_def Let_def set_task_def
      idle_exit_pool_fields default_timeout example_simps)

text \<open>
  Claim C9 says that every call whose guest has not completed when its timer fires is
  rejected with the timeout error, and that its worker is replaced. The error handler
  takes a dead worker off \<open>workers\<close> but leaves it on \<open>freeWorkers\<close>, so after a worker
  has died while idle (the handler's own branch without a task), \<open>runContract\<close> hands a
  later call to the dead worker. Its guest never runs; when its timer fires, the callback
  sets \<open>didTimeout\<close> and calls \<open>terminate()\<close>, but the thread exited before and no
  second \<open>exit\<close> comes: nothing rejects the promise and no worker is constructed. Here
  the second of two calls to a pool of one worker whose first worker died idle.
\<close>

theorem timeout_on_dead_worker_never_rejects:
  "workers idle_exit_pool = [1] \<and> freeWorkers idle_exit_pool = [0, 1]
   \<and> exited (worker_obj idle_exit_pool 0)
   \<and> posted stale_pool = [(1, Task (example_task ''spin'')), (0, Task (example_task ''spin''))]
   \<and> kTaskInfo (worker_obj stale_pool 0) =
       Some \<lparr>promise = 1, ti_blockHeight = 7, ti_contractId = js ''alice.test'',
             ti_methodName = ''spin'', timeoutHandle = Some 1, didTimeout = False\<rparr>
   \<and> timers stale_pool 1 = Some 0 \<and> delays stale_pool 1 = Some 1000
   \<and> promises stale_pool 1 = Pending
   \<and> kTaskInfo (worker_obj (on_timeout 1 stale_pool) 0) =
       Some \<lparr>promise = 1, ti_blockHeight = 7, ti_contractId = js ''alice.test'',
             ti_methodName = ''spin'', timeoutHandle = Some 1, didTimeout = True\<rparr>
   \<and> terminated (worker_obj (on_timeout 1 stale_pool) 0)
   \<and> thread_exit 0 ''1'' (on_timeout 1 stale_pool) = Inr (on_timeout 1 stale_pool)
   \<and> promises (on_timeout 1 stale_pool) 1 = Pending
   \<and> timers (on_timeout 1 stale_pool) 1 = None
   \<and> workers (on_timeout 1 stale_pool) = [1]
   \<and> next_worker (on_timeout 1 stale_pool) = 2"
  by (simp add: idle_exit_pool_fields stale_pool_fields on_timeout_def thread_exit_def
      terminate_def set_task_def)

subsection \<open>The result of a call\<close>

text \<open>
  \<open>value_return\<close> is the only function of \<open>env\<close> that writes \<open>ctx.result\<close>: the
  last call of it before the method returns decides the result, and a method that never
  calls it leaves the result absent.
\<close>

lemma named_imports_keep_state:
  assumes "map_of named_imports name = Some f"
  shows "snd (f args st) = st"
proof -
  from assms have "(name, f) \<in> set named_imports" by (rule map_of_SomeD)
  then have "\<exists>n. f = prohibitedInView n \<or> f = notImplemented n"
    unfolding named_imports_def by (elim set_ConsD[elim_format] disjE) auto
  then show ?thesis by (auto simp: prohibitedInView_def notImplemented_def)
qed

lemma env_keeps_result:
  assumes "env decode c st = Some (r, st')" and "\<not> is_value_return (Call c)"
  shows "result st' = result st"
proof (cases c)
  case (Storage_read key_len key_ptr register_id)
  then show ?thesis using assms(1)
    by (auto simp: storage_read_def Let_def split: completion.splits option.splits)
next
  case (Named name args)
  show ?thesis
  proof (cases "map_of named_imports name")
    case None
    then show ?thesis using assms(1) Named by auto
  next
    case (Some f)
    then show ?thesis using assms(1) Named named_imports_keep_state[OF Some, of args st]
      by (cases "f args st") auto
  qed
next
  case (Value_return l p)
  then show ?thesis using assms(2) by simp
qed (use assms(1) in \<open>auto simp: register_len_def read_register_def current_account_id_def
      input_def block_index_def panic_def log_utf8_def log_utf16_def log_with_def
      split: completion.splits\<close>)

lemma run_guest_keeps_result:
  "run_guest decode ops st = Some (r, st') \<Longrightarrow> \<not> list_ex is_value_return ops \<Longrightarrow>
     result st' = result st"
proof (induction ops arbitrary: st)
  case Nil
  then show ?case by simp
next
  case (Cons op ops)
  show ?case
  proof (cases op)
    case (Call c)
    from Cons.prems(2) Call have nv: "\<not> is_value_return (Call c)" "\<not> list_ex is_value_return ops"
      by simp_all
    show ?thesis
    proof (cases "env decode c st")
      case None
      then show ?thesis using Cons.prems(1) Call by simp
    next
      case (Some a)
      obtain k s1 where a: "a = (k, s1)" by (cases a)
      have keep: "result s1 = result st" using env_keeps_result[OF _ nv(1)] Some a by simp
      show ?thesis
      proof (cases k)
        case (Normal x)
        then have "run_guest decode ops s1 = Some (r, st')" using Cons.prems(1) Call Some a by simp
        from Cons.IH[OF this nv(2)] keep show ?thesis by simp
      next
        case (Throw e)
        then show ?thesis using Cons.prems(1) Call Some a keep by simp
      qed
    qed
  next
    case (Store addr bs)
    then show ?thesis using Cons.prems Cons.IH[of "st\<lparr>memory := take addr (memory st) @ bs
        @ drop (addr + length bs) (memory st)\<rparr>"]
      by (auto split: if_splits)
  next
    case Unreachable
    then show ?thesis using Cons.prems by auto
  qed
qed

lemma last_value_return_wins:
  assumes "run_guest decode pre st = Some (Normal (), st1)"
    and "run_guest decode (pre @ Call (Value_return value_len value_ptr) # post) st
           = Some (r, st2)"
    and "\<not> list_ex is_value_return post"
  shows "result st2 = Some (Uint8Array_slice (memory st1) (Number (sint value_ptr))
                             (Number (sint value_ptr + sint value_len)))"
proof -
  let ?s = "snd (value_return value_len value_ptr st1)"
  have "run_guest decode post ?s = Some (r, st2)"
    using assms(1,2) by (simp add: run_guest_append value_return_def)
  from run_guest_keeps_result[OF this assms(3)] show ?thesis
    by (simp add: value_return_def)
qed

lemma no_value_return_absent_result:
  assumes "exports (wasmModule msg) (task_methodName msg) = Some body"
    and "\<not> list_ex is_value_return body"
    and "runWASM decode msg polls = Some (Normal (), st)"
  shows "worker_on_message decode msg polls = Some (outbox st @ [Completed None (logs st)])"
proof -
  have "run_guest decode body (initial_state msg polls) = Some (Normal (), st)"
    using assms(1,3) by (simp add: runWASM_def Let_def split: if_splits)
  from run_guest_keeps_result[OF this assms(2)] have "result st = None"
    by (simp add: initial_state_simps)
  then show ?thesis using assms(3) by (simp add: worker_on_message_def)
qed

lemma on_message_completed:
  assumes "kTaskInfo (worker_obj pl w) = Some ti" and "promises pl (promise ti) = Pending"
  shows "\<exists>pl2. on_message w (Completed res lgs) pl = Inr pl2
           \<and> promises pl2 (promise ti)
               = (case res of None \<Rightarrow> Pending | Some r \<Rightarrow> Resolved (Some r) lgs)"
  using assms
  by (cases res) (simp_all add: on_message_def Let_def settle_def emit_keeps set_task_def)

lemma quiet_run:
  "worker_on_message bytewise_decoder (example_task ''quiet'') [] = Some [Completed None [js ''hello'']]"
  using log_utf8_appends[of 1 5 "initial_state (example_task ''quiet'') []" bytewise_decoder]
  by (simp add: worker_on_message_def runWASM_def example_links example_simps example_exports
      example_module_def initial_state_simps bytewise_decoder_def ascii_def js_def)

text \<open>
  Claim C2 says that a call whose method returns without error settles with
  \<open>{ result, logs }\<close>, with an absent result when \<open>value_return\<close> was never invoked.
  The worker does post \<open>{ result: undefined, logs }\<close> (\<open>no_value_return_absent_result\<close>),
  but the pool's handler resolves only under \<open>if (result)\<close>: for an absent result it
  frees the worker, clears the timer and drops the task, and calls neither \<open>resolve\<close>
  nor \<open>reject\<close>, so the caller's promise stays pending for good
  (\<open>on_message_completed\<close>). Here the method \<open>quiet\<close> logs and returns. When
  \<open>value_return\<close> was invoked, the promise resolves with the bytes of the last
  invocation (\<open>last_value_return_wins\<close>, \<open>on_message_completed\<close>).
\<close>

theorem no_value_return_never_settles:
  "worker_on_message bytewise_decoder (example_task ''quiet'') []
     = Some [Completed None [js ''hello'']]
   \<and> promises (example_pool ''quiet'') 0 = Pending
   \<and> (case on_message 0 (Completed None [js ''hello'']) (example_pool ''quiet'') of
         Inl e \<Rightarrow> False
       | Inr pl \<Rightarrow> promises pl 0 = Pending \<and> kTaskInfo (worker_obj pl 0) = None
                   \<and> timers pl = Map.empty \<and> freeWorkers pl = [0]
                   \<and> freed_listeners pl = [])"
  using quiet_run
  by (simp add: on_message_def example_pool_task example_pool_fields set_task_def
      emit_kWorkerFreedEvent_def Let_def)

subsection \<open>close\<close>

lemma fold_terminate:
  "kTaskInfo (worker_obj (fold terminate ws pl) v) = kTaskInfo (worker_obj pl v)
   \<and> next_worker (fold terminate ws pl) = next_worker pl
   \<and> workers (fold terminate ws pl) = workers pl
   \<and> promises (fold terminate ws pl) = promises pl
   \<and> terminated (worker_obj (fold terminate ws pl) v)
       = (v \<in> set ws \<or> terminated (worker_obj pl v))"
proof (induction ws arbitrary: pl)
  case Nil
  show ?case by simp
next
  case (Cons w ws)
  show ?case using Cons.IH[of "terminate w pl"]
    by (auto simp: terminate_def)
qed

lemma close_terminates_all:
  "v \<in> set (workers pl) \<Longrightarrow> terminated (worker_obj (close pl) v)"
  using fold_terminate[of "workers pl" pl v] by (simp add: close_def)

lemma exit_after_close_respawns:
  assumes "kTaskInfo (worker_obj pl w) = Some ti"
  shows "\<exists>pl2. on_exit w code (close pl) = Inr pl2
           \<and> workers pl2 = splice_indexOf (workers pl) w @ [next_worker pl]
           \<and> \<not> terminated (worker_obj pl2 (next_worker pl))"
proof -
  have k: "kTaskInfo (worker_obj (close pl) w) = Some ti"
    and n: "next_worker (close pl) = next_worker pl"
    and ws: "workers (close pl) = workers pl"
    using fold_terminate[of "workers pl" pl w] assms by (simp_all add: close_def)
  show ?thesis
    by (simp add: on_exit_def on_error_def k addNewWorker_keeps settle_def n ws)
qed

text \<open>
  Claim C4 says that after \<open>close()\<close> the pool constructs no replacement worker.
  \<open>close\<close> does terminate every worker's thread, but each thread's exit runs the
  \<open>exit\<close> handler, which raises the worker's \<open>error\<close> event, whose handler calls
  \<open>addNewWorker\<close>: the pool has no closed state (\<open>close_terminates_all\<close>,
  \<open>exit_after_close_respawns\<close>). Here a pool of one worker is closed,
  once while the worker is busy and once while it is idle (with a listener for the pool's
  error event): after the exit the list holds a new worker whose thread runs.
\<close>

theorem close_respawns_workers:
  "terminated (worker_obj (close (example_pool ''spin'')) 0)
   \<and> (case on_exit 0 ''1'' (close (example_pool ''spin'')) of
         Inl e \<Rightarrow> False
       | Inr pl \<Rightarrow> workers pl = [1] \<and> freeWorkers pl = [1]
                   \<and> \<not> terminated (worker_obj pl 1))
   \<and> (case on_exit 0 ''1'' (close ((WorkerPool 1 example_client None)\<lparr>error_listener := True\<rparr>)) of
         Inl e \<Rightarrow> False
       | Inr pl \<Rightarrow> workers pl = [1] \<and> \<not> terminated (worker_obj pl 1))"
  unfolding WorkerPool_1
  by (simp add: close_def terminate_def example_pool_fields example_pool_task on_exit_def
      on_error_def settle_def addNewWorker_def emit_kWorkerFreedEvent_def Let_def
      splice_indexOf_def)

end
